theory Spec2Isabelle
  imports Complex_Main
begin

section \<open>The glTF loader of qtek (src/loader/GLTF.js)\<close>

text \<open>
  A shallow embedding of the parse stages of the loader: \<open>_parseMaterials\<close>,
  \<open>_parseMeshes\<close>, \<open>_parseNodes\<close>, \<open>_parseSkins\<close> and \<open>_parseAnimations\<close>.

  Conventions of the embedding.
  \<^item> A JavaScript exception is a value of type \<open>error\<close>; a stage returns
    \<open>error + 'a\<close>, with \<open>Inl\<close> for the exception that aborts it. The value
    \<open>Unmodelled\<close> is no exception: it ends a run at the point where the code assigns to
    a property of \<open>Object.prototype\<close> itself. From there on every object inherits that
    property, and what the code does is outside the embedding.
  \<^item> A descriptor object of the document is a record whose optional properties are
    \<open>option\<close> fields (\<open>None\<close> is \<open>undefined\<close>). A table that the code walks with
    \<open>for .. in\<close> is an association list in property order; a table that is only looked
    up is a map. Both hold the own properties of the table. The tables are plain
    objects, so reading a key that is no own property finds the member of that name
    that every object inherits from \<open>Object.prototype\<close>, when there is one
    (\<open>property\<close> below). An assignment under the key \<open>__proto__\<close>, which would replace
    the prototype of a table, is treated like an assignment under any other key.
  \<^item> An object that is shared and assigned to (a scene node, a joint, an array buffer) lives
    in a store and is referred to by its index or name there.
  \<^item> JavaScript numbers are the reals extended with the two infinities and NaN; rounding
    and signed zeros are not modelled.
\<close>

subsection \<open>Exceptions and numbers\<close>

datatype error = TypeError | RangeError | Unmodelled

datatype jsnum = Fin real | PosInf | NegInf | NaN

text \<open>\<open>Math.log\<close>, \<open>Math.sin\<close>, \<open>Math.cos\<close> and the operators \<open>*\<close>, \<open>/\<close>, \<open>-\<close>.\<close>

fun math_log :: "jsnum \<Rightarrow> jsnum" where
  "math_log (Fin x) = (if 0 < x then Fin (ln x) else if x = 0 then NegInf else NaN)"
| "math_log PosInf = PosInf"
| "math_log NegInf = NaN"
| "math_log NaN = NaN"

fun math_sin :: "jsnum \<Rightarrow> jsnum" where
  "math_sin (Fin x) = Fin (sin x)"
| "math_sin _ = NaN"

fun math_cos :: "jsnum \<Rightarrow> jsnum" where
  "math_cos (Fin x) = Fin (cos x)"
| "math_cos _ = NaN"

fun js_mul :: "jsnum \<Rightarrow> jsnum \<Rightarrow> jsnum" where
  "js_mul NaN _ = NaN"
| "js_mul _ NaN = NaN"
| "js_mul (Fin x) (Fin y) = Fin (x * y)"
| "js_mul (Fin x) PosInf = (if x = 0 then NaN else if 0 < x then PosInf else NegInf)"
| "js_mul (Fin x) NegInf = (if x = 0 then NaN else if 0 < x then NegInf else PosInf)"
| "js_mul PosInf (Fin y) = (if y = 0 then NaN else if 0 < y then PosInf else NegInf)"
| "js_mul NegInf (Fin y) = (if y = 0 then NaN else if 0 < y then NegInf else PosInf)"
| "js_mul PosInf PosInf = PosInf"
| "js_mul PosInf NegInf = NegInf"
| "js_mul NegInf PosInf = NegInf"
| "js_mul NegInf NegInf = PosInf"

fun js_div :: "jsnum \<Rightarrow> jsnum \<Rightarrow> jsnum" where
  "js_div NaN _ = NaN"
| "js_div _ NaN = NaN"
| "js_div (Fin x) (Fin y) =
     (if y \<noteq> 0 then Fin (x / y)
      else if x = 0 then NaN else if 0 < x then PosInf else NegInf)"
| "js_div (Fin x) PosInf = Fin 0"
| "js_div (Fin x) NegInf = Fin 0"
| "js_div PosInf (Fin y) = (if 0 \<le> y then PosInf else NegInf)"
| "js_div NegInf (Fin y) = (if 0 \<le> y then NegInf else PosInf)"
| "js_div PosInf PosInf = NaN"
| "js_div PosInf NegInf = NaN"
| "js_div NegInf PosInf = NaN"
| "js_div NegInf NegInf = NaN"

fun js_sub :: "jsnum \<Rightarrow> jsnum \<Rightarrow> jsnum" where
  "js_sub NaN _ = NaN"
| "js_sub _ NaN = NaN"
| "js_sub (Fin x) (Fin y) = Fin (x - y)"
| "js_sub (Fin x) PosInf = NegInf"
| "js_sub (Fin x) NegInf = PosInf"
| "js_sub PosInf (Fin y) = PosInf"
| "js_sub NegInf (Fin y) = NegInf"
| "js_sub PosInf PosInf = NaN"
| "js_sub PosInf NegInf = PosInf"
| "js_sub NegInf PosInf = NegInf"
| "js_sub NegInf NegInf = NaN"

text \<open>A property key that is \<open>undefined\<close> is looked up as the string "undefined".\<close>

fun prop_key :: "string option \<Rightarrow> string" where
  "prop_key None = ''undefined''"
| "prop_key (Some s) = s"

subsection \<open>Plain objects\<close>

text \<open>
  The members that a plain object inherits from \<open>Object.prototype\<close>: eleven functions
  and the accessor \<open>__proto__\<close>, which reads as \<open>Object.prototype\<close> itself. All of them
  are objects, so they are true in a condition. The loader reads two properties that
  such a member can have: \<open>length\<close>, the number of parameters of a function, and
  \<open>name\<close>, the name of a function (\<open>constructor\<close> is the function \<open>Object\<close>). Every
  other property that the loader reads of a member is \<open>undefined\<close>.
\<close>

definition prototype_members :: "string list" where
  "prototype_members =
     [''constructor'', ''toString'', ''toLocaleString'', ''valueOf'', ''hasOwnProperty'',
      ''isPrototypeOf'', ''propertyIsEnumerable'', ''__proto__'', ''__defineGetter__'',
      ''__defineSetter__'', ''__lookupGetter__'', ''__lookupSetter__'']"

definition inherited :: "string \<Rightarrow> bool" where
  "inherited k \<longleftrightarrow> k \<in> set prototype_members"

definition member_length :: "string \<Rightarrow> nat option" where
  "member_length k =
     (if k = ''__proto__'' then None
      else if k \<in> set [''constructor'', ''hasOwnProperty'', ''isPrototypeOf'',
                        ''propertyIsEnumerable'', ''__lookupGetter__'', ''__lookupSetter__'']
        then Some 1
      else if k \<in> set [''__defineGetter__'', ''__defineSetter__''] then Some 2
      else Some 0)"

definition member_name :: "string \<Rightarrow> string option" where
  "member_name k =
     (if k = ''__proto__'' then None
      else if k = ''constructor'' then Some ''Object''
      else Some k)"

text \<open>
  What \<open>table[k]\<close> finds: an own property of the table, an inherited member, or
  nothing (\<open>None\<close>, the value \<open>undefined\<close>).
\<close>

datatype 'a found = Own 'a | Member string

definition property :: "(string \<rightharpoonup> 'a) \<Rightarrow> string \<Rightarrow> 'a found option" where
  "property table k =
     (case table k of
        Some v \<Rightarrow> Some (Own v)
      | None \<Rightarrow> if inherited k then Some (Member k) else None)"

subsection \<open>Textures, shaders and materials\<close>

text \<open>
  A texture entity of \<open>lib.textures\<close>; \<open>_parseTextures\<close> stores \<open>Texture2D\<close> objects
  only, here identified by the image path they load.
\<close>

datatype texture = Texture2D string

text \<open>
  A value of a material's \<open>values\<close> table. The document holds numbers, arrays and
  strings; \<open>_parseMaterials\<close> writes into the same table what it finds in
  \<open>lib.textures\<close> (a texture object, or a member that the table inherits) and \<open>null\<close>.
\<close>

datatype uval =
  UNum jsnum | UArr "jsnum list" | UStr string | UTex texture | UMember string | UNull

text \<open>
  The shader that \<open>shaderLib.get(shaderName, ...)\<close> returns is identified by the name,
  the enabled textures and the \<open>JOINT_COUNT\<close> vertex define it was asked with.
\<close>

record shader =
  sh_name :: string
  sh_textures :: "string list"
  sh_joint_count :: "nat option"

record gl_states =
  depthMask :: "bool option"
  depthTestEnable :: "bool option"
  cullFaceEnable :: "bool option"
  blendEnable :: "bool option"

record pass_info =
  states :: "gl_states option"

record technique_info =
  passes :: "(string \<times> pass_info) list option"
  pass :: "string option"
  t_states :: "gl_states option"

record instance_technique =
  it_technique :: "string option"
  it_values :: "(string \<times> uval) list option"

datatype 'a nullable = Undefined | Null | Defined 'a

record material_info =
  mi_name :: "string option"
  technique :: "string option"
  mi_values :: "(string \<times> uval) list option"
  instanceTechnique :: "instance_technique nullable"

text \<open>
  Modelled from the spec: the classes \<open>Material\<close> and \<open>StandardMaterial\<close> and the shader
  library are not in the source. A material is "named uniform values plus one resolved
  shader reference and render-state flags": \<open>m_uniforms\<close> holds the uniform values,
  which \<open>material.set(name, value)\<close> stores under their names. A field that is \<open>None\<close>
  has been left at the value its constructor gave it.
\<close>

record material =
  m_name :: "string option"
  m_standard :: bool
  m_shader :: "shader option"
  m_depthMask :: "bool option"
  m_depthTest :: "bool option"
  m_cullFace :: "bool option"
  m_transparent :: "bool option"
  m_color :: "uval option"
  m_diffuseMap :: "uval option"
  m_normalMap :: "uval option"
  m_jointCount :: "nat option"
  m_uniforms :: "string \<rightharpoonup> uval"

text \<open>The loader's own configuration fields.\<close>

record loader =
  rootPath :: "string option"
  textureRootPath :: "string option"
  shaderName :: string
  useStandardMaterial :: bool
  includeCamera :: bool
  includeLight :: bool
  includeAnimation :: bool
  includeMesh :: bool
  includeTexture :: bool

definition new_Material :: "string option \<Rightarrow> shader \<Rightarrow> material" where
  "new_Material n sh =
     \<lparr>m_name = n, m_standard = False, m_shader = Some sh, m_depthMask = None,
      m_depthTest = None, m_cullFace = None, m_transparent = None, m_color = None,
      m_diffuseMap = None, m_normalMap = None, m_jointCount = None,
      m_uniforms = Map.empty\<rparr>"

definition new_StandardMaterial :: "string option \<Rightarrow> material" where
  "new_StandardMaterial n =
     \<lparr>m_name = n, m_standard = True, m_shader = None, m_depthMask = None,
      m_depthTest = None, m_cullFace = None, m_transparent = None, m_color = None,
      m_diffuseMap = None, m_normalMap = None, m_jointCount = None,
      m_uniforms = Map.empty\<rparr>"

definition shaderLib_get :: "string \<Rightarrow> string list \<Rightarrow> shader" where
  "shaderLib_get n texs = \<lparr>sh_name = n, sh_textures = texs, sh_joint_count = None\<rparr>"

definition material_set :: "string \<Rightarrow> uval \<Rightarrow> material \<Rightarrow> material" where
  "material_set k v m = m\<lparr>m_uniforms := (m_uniforms m)(k \<mapsto> v)\<rparr>"

subsection \<open>\<open>_parseMaterials\<close>\<close>

text \<open>Lines 497-509: the technique table, with the legacy \<open>passes\<close> indirection.\<close>

fun parse_technique :: "technique_info \<Rightarrow> pass_info option" where
  "parse_technique ti =
     (case passes ti of
        Some ps \<Rightarrow> map_of ps (prop_key (pass ti))
      | None \<Rightarrow> Some \<lparr>states = t_states ti\<rparr>)"

fun parse_techniques ::
  "(string \<times> technique_info) list \<Rightarrow> (string \<rightharpoonup> pass_info) \<Rightarrow> (string \<rightharpoonup> pass_info)" where
  "parse_techniques [] techniques = techniques"
| "parse_techniques ((name, ti) # rest) techniques =
     parse_techniques rest (techniques(name := parse_technique ti))"

text \<open>
  Lines 516-521: the properties of \<open>instanceTechnique\<close> are copied onto the material
  descriptor itself, and \<open>instanceTechnique\<close> is set to \<open>null\<close>.
\<close>

fun merge_instanceTechnique :: "material_info \<Rightarrow> material_info" where
  "merge_instanceTechnique mi =
     (case instanceTechnique mi of
        Defined it \<Rightarrow>
          mi\<lparr>technique := (case it_technique it of Some t \<Rightarrow> Some t | None \<Rightarrow> technique mi),
             mi_values := (case it_values it of Some v \<Rightarrow> Some v | None \<Rightarrow> mi_values mi),
             instanceTechnique := Null\<rparr>
      | _ \<Rightarrow> mi)"

text \<open>
  Lines 525-537: \<open>uniforms\<close> is the descriptor's own \<open>values\<close> object, and every string
  in it is overwritten by what \<open>lib.textures\<close> has under that name when that is true in
  the condition of line 530 (a texture, or an inherited member for a string like
  \<open>'constructor'\<close>), and by \<open>null\<close> otherwise.
\<close>

fun resolve_uniform :: "(string \<rightharpoonup> texture) \<Rightarrow> uval \<Rightarrow> uval" where
  "resolve_uniform textures (UStr s) =
     (case property textures s of
        Some (Own t) \<Rightarrow> UTex t
      | Some (Member m) \<Rightarrow> UMember m
      | None \<Rightarrow> UNull)"
| "resolve_uniform textures v = v"

definition resolve_uniforms ::
  "(string \<rightharpoonup> texture) \<Rightarrow> (string \<times> uval) list \<Rightarrow> (string \<times> uval) list" where
  "resolve_uniforms textures vs = map (\<lambda>(symbol, v). (symbol, resolve_uniform textures v)) vs"

definition update_materialInfo :: "(string \<rightharpoonup> texture) \<Rightarrow> material_info \<Rightarrow> material_info" where
  "update_materialInfo textures mi =
     (let mi' = merge_instanceTechnique mi
      in mi'\<lparr>mi_values := map_option (resolve_uniforms textures) (mi_values mi')\<rparr>)"

text \<open>Truthiness, \<open>instanceof Texture2D\<close>, \<open>slice(0, 3)\<close> and the number conversion of a value.\<close>

fun truthy :: "uval \<Rightarrow> bool" where
  "truthy (UNum (Fin x)) = (x \<noteq> 0)"
| "truthy (UNum NaN) = False"
| "truthy (UNum _) = True"
| "truthy (UArr _) = True"
| "truthy (UStr s) = (s \<noteq> [])"
| "truthy (UTex _) = True"
| "truthy (UMember _) = True"
| "truthy UNull = False"

fun is_Texture2D :: "uval option \<Rightarrow> bool" where
  "is_Texture2D (Some (UTex _)) = True"
| "is_Texture2D _ = False"

text \<open>
  \<open>v.slice(0, 3)\<close>: an array gives its first three entries, a string its first three
  characters; a number, a texture or an inherited member has no such method.
\<close>

fun slice3 :: "uval \<Rightarrow> error + uval" where
  "slice3 (UArr xs) = Inr (UArr (take 3 xs))"
| "slice3 (UStr s) = Inr (UStr (take 3 s))"
| "slice3 _ = Inl TypeError"

text \<open>
  The conversion to a number that \<open>Math.log\<close> applies to its argument. A string is not
  converted here: when the shininess is read every string of the table has been replaced.
\<close>

fun to_number :: "uval \<Rightarrow> jsnum" where
  "to_number (UNum n) = n"
| "to_number (UArr []) = Fin 0"
| "to_number (UArr [n]) = n"
| "to_number (UArr _) = NaN"
| "to_number (UStr _) = NaN"
| "to_number (UTex _) = NaN"
| "to_number (UMember _) = NaN"
| "to_number UNull = Fin 0"

text \<open>\<open>x != null\<close> on a looked-up property.\<close>

fun not_null :: "uval option \<Rightarrow> bool" where
  "not_null None = False"
| "not_null (Some UNull) = False"
| "not_null (Some _) = True"

text \<open>Lines 538-557.\<close>

definition enabledTextures_of :: "(string \<rightharpoonup> uval) \<Rightarrow> string list" where
  "enabledTextures_of uniforms =
     (if is_Texture2D (uniforms ''diffuse'') then [''diffuseMap''] else []) @
     (if is_Texture2D (uniforms ''normalMap'') then [''normalMap''] else [])"

definition create_material :: "loader \<Rightarrow> material_info \<Rightarrow> (string \<rightharpoonup> uval) \<Rightarrow> material" where
  "create_material self mi uniforms =
     (if useStandardMaterial self then new_StandardMaterial (mi_name mi)
      else new_Material (mi_name mi) (shaderLib_get (shaderName self) (enabledTextures_of uniforms)))"

text \<open>Lines 558-568.\<close>

definition set_states :: "gl_states \<Rightarrow> material \<Rightarrow> material" where
  "set_states st m =
     (let m1 = (case depthMask st of Some b \<Rightarrow> m\<lparr>m_depthMask := Some b\<rparr> | None \<Rightarrow> m);
          m2 = (case depthTestEnable st of Some b \<Rightarrow> m1\<lparr>m_depthTest := Some b\<rparr> | None \<Rightarrow> m1);
          m3 = m2\<lparr>m_cullFace := Some (case cullFaceEnable st of Some b \<Rightarrow> b | None \<Rightarrow> False)\<rparr>
      in if blendEnable st = Some True then m3\<lparr>m_transparent := Some True\<rparr> else m3)"

text \<open>Lines 570-589.\<close>

definition set_diffuse :: "bool \<Rightarrow> uval option \<Rightarrow> material \<Rightarrow> material" where
  "set_diffuse isStandardMaterial diffuseProp m =
     (case diffuseProp of
        None \<Rightarrow> m
      | Some d \<Rightarrow>
          (if \<not> truthy d then m
           else (case d of
              UArr xs \<Rightarrow>
                if isStandardMaterial then m\<lparr>m_color := Some (UArr (take 3 xs))\<rparr>
                else material_set ''color'' (UArr (take 3 xs)) m
            | _ \<Rightarrow>
                if isStandardMaterial then m\<lparr>m_diffuseMap := Some d\<rparr>
                else material_set ''diffuseMap'' d m)))"

text \<open>Lines 590-597.\<close>

definition set_normalMap :: "bool \<Rightarrow> uval option \<Rightarrow> material \<Rightarrow> material" where
  "set_normalMap isStandardMaterial nm m =
     (if not_null nm then
        (if isStandardMaterial then m\<lparr>m_normalMap := nm\<rparr>
         else material_set ''normalMap'' (the nm) m)
      else m)"

text \<open>Lines 598-600 and 612-614: \<open>material.set(key, uniforms[symbol].slice(0, 3))\<close>.\<close>

definition set_sliced :: "string \<Rightarrow> uval option \<Rightarrow> material \<Rightarrow> error + material" where
  "set_sliced key v m =
     (if not_null v then
        (case slice3 (the v) of Inl e \<Rightarrow> Inl e | Inr s \<Rightarrow> Inr (material_set key s m))
      else Inr m)"

text \<open>Lines 601-611.\<close>

definition set_shininess :: "uval option \<Rightarrow> material \<Rightarrow> material" where
  "set_shininess sh m =
     (if not_null sh then
        (let glossiness = js_div (math_log (to_number (the sh))) (math_log (Fin 8192))
         in material_set ''shininess'' (the sh)
              (material_set ''roughness'' (UNum (js_sub (Fin 1) glossiness))
                 (material_set ''glossiness'' (UNum glossiness) m)))
      else material_set ''shininess'' (UNum (Fin (1/2)))
             (material_set ''glossiness'' (UNum (Fin (1/2))) m))"

text \<open>Lines 615-617.\<close>

definition set_alpha :: "uval option \<Rightarrow> material \<Rightarrow> material" where
  "set_alpha tr m = (if not_null tr then material_set ''alpha'' (the tr) m else m)"

text \<open>
  Lines 522-619 for one material descriptor, after its descriptor has been updated:
  the material object that is stored in \<open>lib.materials\<close>. Line 558 reads
  \<open>technique.states.depthMask\<close>: it raises when \<open>techniques\<close> has no pass under the
  name, also when the name finds an inherited member, which has no \<open>states\<close>.
\<close>

definition build_material ::
  "loader \<Rightarrow> (string \<rightharpoonup> pass_info) \<Rightarrow> material_info \<Rightarrow> error + material" where
  "build_material self techniques mi =
     (case mi_values mi of
        None \<Rightarrow> Inl TypeError
      | Some vs \<Rightarrow>
          (let uniforms = map_of vs;
               material = create_material self mi uniforms
           in (case techniques (prop_key (technique mi)) of
                 None \<Rightarrow> Inl TypeError
               | Some tech \<Rightarrow>
                   (case states tech of
                      None \<Rightarrow> Inl TypeError
                    | Some st \<Rightarrow>
                        (let m1 = set_states st material;
                             m2 = set_diffuse (useStandardMaterial self) (uniforms ''diffuse'') m1;
                             m3 = set_normalMap (useStandardMaterial self) (uniforms ''normalMap'') m2
                         in (case set_sliced ''emission'' (uniforms ''emission'') m3 of
                               Inl e \<Rightarrow> Inl e
                             | Inr m4 \<Rightarrow>
                                 (case set_sliced ''specularColor'' (uniforms ''specular'')
                                         (set_shininess (uniforms ''shininess'') m4) of
                                    Inl e \<Rightarrow> Inl e
                                  | Inr m6 \<Rightarrow>
                                      Inr (set_alpha (uniforms ''transparency'') m6))))))))"

text \<open>
  The loop of lines 510-620 over \<open>json.materials\<close>. It returns the material descriptors
  as the loop leaves them, and either the exception that stopped it or \<open>lib.materials\<close>.
\<close>

fun parseMaterials_loop ::
  "loader \<Rightarrow> (string \<rightharpoonup> texture) \<Rightarrow> (string \<rightharpoonup> pass_info) \<Rightarrow>
   (string \<times> material_info) list \<Rightarrow> (string \<rightharpoonup> material) \<Rightarrow>
   (string \<times> material_info) list \<times> (error + (string \<rightharpoonup> material))" where
  "parseMaterials_loop self textures techniques [] lib_mats = ([], Inr lib_mats)"
| "parseMaterials_loop self textures techniques ((name, mi) # rest) lib_mats =
     (let mi' = update_materialInfo textures mi
      in (case build_material self techniques mi' of
            Inl e \<Rightarrow> ((name, mi') # rest, Inl e)
          | Inr material \<Rightarrow>
              (let (rest', r) = parseMaterials_loop self textures techniques rest
                                  (lib_mats(name \<mapsto> material))
               in ((name, mi') # rest', r))))"

definition parseMaterials ::
  "loader \<Rightarrow> (string \<rightharpoonup> texture) \<Rightarrow> (string \<times> technique_info) list \<Rightarrow>
   (string \<times> material_info) list \<Rightarrow> (string \<rightharpoonup> material) \<Rightarrow>
   (string \<times> material_info) list \<times> (error + (string \<rightharpoonup> material))" where
  "parseMaterials self textures json_techniques json_materials lib_mats =
     parseMaterials_loop self textures (parse_techniques json_techniques Map.empty)
       json_materials lib_mats"


subsection \<open>Array buffers and typed arrays\<close>

datatype ctor = Int8Array | Uint8Array | Int16Array | Uint16Array | Uint32Array | Float32Array

fun BYTES_PER_ELEMENT :: "ctor \<Rightarrow> nat" where
  "BYTES_PER_ELEMENT Int8Array = 1"
| "BYTES_PER_ELEMENT Uint8Array = 1"
| "BYTES_PER_ELEMENT Int16Array = 2"
| "BYTES_PER_ELEMENT Uint16Array = 2"
| "BYTES_PER_ELEMENT Uint32Array = 4"
| "BYTES_PER_ELEMENT Float32Array = 4"

text \<open>
  An \<open>ArrayBuffer\<close> is modelled by its length in bytes and by the number that an element
  of each type reads as at each byte offset, not by its bytes. A write through a typed
  array changes what that element type reads at that offset. Views of one element type
  start at multiples of the element size, so two elements of that type at different
  offsets never overlap; the effect of a write on what another element type reads there
  is not modelled.
\<close>

record arraybuffer =
  byteLength :: nat
  cell :: "ctor \<Rightarrow> nat \<Rightarrow> jsnum"

text \<open>
  A typed array is a view over a buffer of \<open>lib.buffers\<close> (element type, buffer name, byte
  offset, length in elements) or owns its elements.
\<close>

datatype typed_array = View ctor string nat nat | Owned ctor "jsnum list"

fun ta_length :: "typed_array \<Rightarrow> nat" where
  "ta_length (View c b off n) = n"
| "ta_length (Owned c xs) = length xs"

text \<open>
  The number that \<open>array[i] = v\<close> stores: \<open>undefined\<close> becomes NaN in a float array and
  0 in an integer array. A number is stored as it is (the code only stores numbers
  into float arrays, or numbers read from an array of the same element type).
\<close>

fun to_element :: "ctor \<Rightarrow> jsnum option \<Rightarrow> jsnum" where
  "to_element c (Some x) = x"
| "to_element c None = (if c = Float32Array then NaN else Fin 0)"

text \<open>
  \<open>new ArrayCtor(value)\<close> where \<open>value\<close> is what \<open>lib.buffers\<close> has under a name that
  names no buffer. For \<open>undefined\<close> the argument is read as a length and converts
  to 0. An inherited member is read as an array-like object: the new array has the
  member's \<open>length\<close> (0 when it has none) and each element is \<open>undefined\<close> converted to
  a number. The other arguments of the constructor are not used then.
\<close>

definition array_from :: "ctor \<Rightarrow> string \<Rightarrow> typed_array" where
  "array_from c name =
     (if inherited name
      then Owned c (replicate (case member_length name of Some n \<Rightarrow> n | None \<Rightarrow> 0)
                      (to_element c None))
      else Owned c [])"

text \<open>
  \<open>new ArrayCtor(buffer, byteOffset, length)\<close>, where \<open>buffer\<close> is \<open>lib.buffers[name]\<close>.
  A \<open>length\<close> of \<open>None\<close> stands for NaN (a product with \<open>undefined\<close>), which converts
  to 0; a byte offset that is NaN converts to 0 as well, and the caller passes 0 for it.
  A misaligned offset or a range that leaves the buffer raises \<open>RangeError\<close>.
\<close>

definition new_view ::
  "(string \<rightharpoonup> arraybuffer) \<Rightarrow> ctor \<Rightarrow> string \<Rightarrow> nat \<Rightarrow> nat option \<Rightarrow> error + typed_array" where
  "new_view buffers c name byteOffset len =
     (case buffers name of
        None \<Rightarrow> Inr (array_from c name)
      | Some b \<Rightarrow>
          (let n = (case len of None \<Rightarrow> 0 | Some n \<Rightarrow> n)
           in if byteOffset mod BYTES_PER_ELEMENT c \<noteq> 0 then Inl RangeError
              else if byteLength b < byteOffset + n * BYTES_PER_ELEMENT c then Inl RangeError
              else Inr (View c name byteOffset n)))"


text \<open>\<open>new ArrayCtor(length)\<close>: an array of zeros that owns its elements.\<close>

definition new_array :: "ctor \<Rightarrow> nat \<Rightarrow> typed_array" where
  "new_array c n = Owned c (replicate n (Fin 0))"

text \<open>\<open>array[i]\<close>; \<open>None\<close> is \<open>undefined\<close>, the result of reading past the end.\<close>

fun ta_get :: "(string \<rightharpoonup> arraybuffer) \<Rightarrow> typed_array \<Rightarrow> nat \<Rightarrow> jsnum option" where
  "ta_get buffers (View c name off n) i =
     (if i < n then
        (case buffers name of
           Some b \<Rightarrow> Some (cell b c (off + i * BYTES_PER_ELEMENT c))
         | None \<Rightarrow> None)
      else None)"
| "ta_get buffers (Owned c xs) i = (if i < length xs then Some (xs ! i) else None)"


text \<open>
  \<open>array[i] = v\<close> on an array made by \<open>new_view\<close>: the write goes to the buffer,
  and the result is the new \<open>lib.buffers\<close>. An array of \<open>new_view\<close> that owns its
  elements was made from a value that is no buffer. Only the animation parser writes
  to arrays of \<open>new_view\<close>; there such an array is a float array that is empty or
  holds NaN only, and what is written to an element is the product of that element and
  1000, or a component of the quaternion made from elements of the array, which is
  NaN again. So the array stays as it is.
\<close>

definition view_set ::
  "(string \<rightharpoonup> arraybuffer) \<Rightarrow> typed_array \<Rightarrow> nat \<Rightarrow> jsnum option \<Rightarrow> (string \<rightharpoonup> arraybuffer)" where
  "view_set buffers a i v =
     (case a of
        View c name off n \<Rightarrow>
          (if i < n then
             (case buffers name of
                Some b \<Rightarrow>
                  buffers(name \<mapsto>
                    b\<lparr>cell := (cell b)(c := (cell b c)(off + i * BYTES_PER_ELEMENT c := to_element c v))\<rparr>)
              | None \<Rightarrow> buffers)
           else buffers)
      | Owned c xs \<Rightarrow> buffers)"

subsection \<open>The document\<close>

text \<open>The \<open>type\<close> of an accessor: a GL enum in the legacy schema, a string in the current one.\<close>

datatype acc_type = TypeNum nat | TypeStr string

record accessor_info =
  bufferView :: string
  byteOffset :: nat
  componentType :: "nat option"
  a_type :: "acc_type option"
  a_count :: nat
  a_min :: "real list option"
  a_max :: "real list option"

record bufferView_info =
  buffer :: string
  bv_byteOffset :: nat

record primitive_info =
  attributes :: "(string \<times> string) list"
  indices :: "string option"
  p_material :: "string option"

record mesh_info =
  primitives :: "primitive_info list"
  mesh_name :: "string option"

record camera_info =
  projection :: "string option"
  aspect_ratio :: "real option"
  xfov :: "real option"
  zfar :: "real option"
  znear :: "real option"

text \<open>
  A light descriptor: its \<open>type\<close>, its \<open>id\<close>, and the colour found under the property
  named like the type (\<open>lightInfo.point.color\<close> and so on), when that property exists.
\<close>

record light_params =
  lp_color :: "real list option"

record light_info =
  light_type :: "string option"
  light_id :: "string option"
  point :: "light_params option"
  spot :: "light_params option"
  directional :: "light_params option"

record instanceSkin_info =
  skin :: "string option"
  sources :: "string list option"
  skeletons :: "string list option"

record node_info =
  ni_name :: "string option"
  ni_camera :: "string option"
  ni_lights :: "string list option"
  ni_meshes :: "string list option"
  ni_instanceSkin :: "instanceSkin_info option"
  ni_matrix :: "real list option"
  ni_translation :: "real list option"
  ni_rotation :: "real list option"
  ni_scale :: "real list option"
  ni_children :: "string list option"
  ni_jointId :: "string option"

record ibm_info =
  ibm_bufferView :: string
  ibm_byteOffset :: nat
  ibm_count :: nat

record skin_info =
  sk_joints :: "string list"
  inverseBindMatrices :: "ibm_info option"

record target_info =
  target_id :: "string option"

record channel_info =
  target :: "target_info option"

record animation_info =
  parameters :: "(string \<times> string) list"
  channels :: "channel_info list"

text \<open>
  A value of a sampler or texture descriptor that names a GL constant: a number, or a
  string in the legacy schema.
\<close>

datatype gl_value = GLNum nat | GLStr string

record sampler_info =
  wrapS :: "gl_value option"
  wrapT :: "gl_value option"
  magFilter :: "gl_value option"
  minFilter :: "gl_value option"

record texture_info =
  tx_sampler :: "string option"
  tx_target :: "gl_value option"
  tx_format :: "gl_value option"
  tx_source :: "string option"

record image_info =
  im_path :: "string option"

record scene_info =
  sc_nodes :: "string list option"

record document =
  accessors :: "string \<rightharpoonup> accessor_info"
  bufferViews :: "string \<rightharpoonup> bufferView_info"
  meshes :: "(string \<times> mesh_info) list"
  nodes :: "(string \<times> node_info) list"
  cameras :: "string \<rightharpoonup> camera_info"
  lights :: "string \<rightharpoonup> light_info"
  skins :: "(string \<times> skin_info) list"
  animations :: "(string \<times> animation_info) list"
  d_techniques :: "(string \<times> technique_info) list"
  d_materials :: "(string \<times> material_info) list"
  d_textures :: "(string \<times> texture_info) list"
  samplers :: "string \<rightharpoonup> sampler_info"
  images :: "string \<rightharpoonup> image_info"
  scenes :: "string \<rightharpoonup> scene_info"
  scene :: "string option"

subsection \<open>Scene objects and \<open>lib\<close>\<close>

text \<open>
  A \<open>StaticGeometry\<close>: the \<open>value\<close> of each of its attributes once assigned, the index
  array, the corners of the bounding box once set, and whether \<open>generateTangents\<close> ran.
\<close>

record geometry =
  g_attributes :: "string \<rightharpoonup> typed_array"
  g_indices :: "typed_array option"
  g_bbox_min :: "real list option"
  g_bbox_max :: "real list option"
  g_tangents_generated :: bool


datatype kind =
  Node | Mesh | PerspectiveCamera | OrthographicCamera | PointLight | SpotLight | DirectionalLight
  | Scene

text \<open>What \<open>mesh.skeleton\<close> holds: the skin name that \<open>_parseNodes\<close> writes, or the skeleton
  object (known by its name in \<open>lib.skeletons\<close>) that \<open>_parseSkins\<close> writes.\<close>

datatype skeleton_ref = SkinName "string option" | SkeletonObject string

text \<open>
  A scene object: a \<open>Node\<close> or one of the classes derived from it. Scene objects live
  in the store \<open>heap\<close> of \<open>lib\<close>, and a reference to one is its index there. What a
  lookup in \<open>lib.nodes\<close> finds is a scene object (\<open>Own\<close> with its index) or an
  inherited member; so a value that was looked up there, like a child of a node, the
  node of a joint or the target of a clip, is of type \<open>ref\<close>.
\<close>

type_synonym ref = "nat found"

record entity =
  e_kind :: kind
  e_name :: "string option"
  e_position :: "real list"
  e_rotation :: "real list"
  e_scale :: "real list"
  e_localTransform :: "real list"
  e_children :: "ref list"
  e_parent :: "nat option"
  e_geometry :: "geometry option"
  e_material :: "material option"
  e_skeleton :: "skeleton_ref option"
  e_joints :: "int option list option"
  e_camera :: "camera_info option"
  e_color :: "real list option"

text \<open>
  Modelled from the spec: the constructors of the scene objects are not in the source.
  A new object has the identity transform ("each defaults to identity if absent"), no
  children and no parent.
\<close>

definition identity_matrix :: "real list" where
  "identity_matrix = [1, 0, 0, 0,  0, 1, 0, 0,  0, 0, 1, 0,  0, 0, 0, 1]"

definition new_entity :: "kind \<Rightarrow> string option \<Rightarrow> entity" where
  "new_entity k n =
     \<lparr>e_kind = k, e_name = n, e_position = [0, 0, 0], e_rotation = [0, 0, 0, 1],
      e_scale = [1, 1, 1], e_localTransform = identity_matrix, e_children = [],
      e_parent = None, e_geometry = None, e_material = None, e_skeleton = None,
      e_joints = None, e_camera = None, e_color = None\<rparr>"

text \<open>
  Modelled from the spec: the class \<open>Joint\<close> is not in the source. A joint has a name,
  "an index into its Skeleton's joint list", "a non-owning reference to its bound Node",
  "a parent-index" and "a reference to the skin's root node". The record holds what the
  loader has given to the constructor or assigned: a name or index of \<open>None\<close>, and a
  field that is \<open>Unset\<close>, are as the constructor left them, which the source does not
  tell. The value of an assigned field can be \<open>undefined\<close>, which is \<open>Given None\<close>.
\<close>

datatype 'a field = Unset | Given 'a

record joint =
  j_name :: "string option"
  j_index :: "int option"
  j_node :: "ref option field"
  j_parentIndex :: "int option field"
  j_rootNode :: "ref option field"

text \<open>
  What \<open>bindNodeToJoint\<close> returns and \<open>skeleton.roots\<close> holds: a joint of the
  skeleton's own list, by position; a joint object that is in no skeleton; or an
  inherited member that the joint map was found to have, which is no joint.
\<close>

datatype joint_ref = InSkeleton nat | Synthetic joint | NoJoint string

record skeleton =
  s_name :: string
  s_joints :: "joint list"
  s_roots :: "joint_ref list"
  s_invBindPoseMatricesArray :: "typed_array option"
  s_skinMatricesArray :: "typed_array option"

record clip =
  c_name :: "string option"
  c_target :: ref
  c_time :: "typed_array option"
  c_rotation :: "typed_array option"
  c_position :: "typed_array option"
  c_scale :: "typed_array option"
  c_life :: "jsnum option"

datatype warning =
  AttributeTypeNotSupported "acc_type option" | TODO_Orthographic_camera
  | LightNotSupported "string option"

text \<open>
  The tables of \<open>lib\<close>, the store of scene objects, and the messages passed to
  \<open>console.warn\<close> so far. An entry of \<open>lib.nodes\<close> is the value of the variable
  \<open>node\<close> when line 879 stored it: a scene object, or \<open>undefined\<close> (\<open>None\<close>).
\<close>

record lib =
  heap :: "entity list"
  lib_buffers :: "string \<rightharpoonup> arraybuffer"
  lib_textures :: "string \<rightharpoonup> texture"
  lib_materials :: "string \<rightharpoonup> material"
  lib_meshes :: "string \<rightharpoonup> nat list"
  lib_nodes :: "string \<rightharpoonup> nat option"
  lib_cameras :: "string \<rightharpoonup> nat"
  lib_skeletons :: "string \<rightharpoonup> skeleton"
  lib_clips :: "string \<rightharpoonup> clip"
  warnings :: "warning list"

text \<open>\<open>lib.nodes[k]\<close>.\<close>

definition node_at :: "lib \<Rightarrow> string \<Rightarrow> ref option" where
  "node_at l k =
     (case lib_nodes l k of
        Some (Some r) \<Rightarrow> Some (Own r)
      | Some None \<Rightarrow> None
      | None \<Rightarrow> if inherited k then Some (Member k) else None)"

text \<open>\<open>new C(...)\<close> for a scene object: the object is put into the store.\<close>

definition alloc :: "entity \<Rightarrow> lib \<Rightarrow> nat \<times> lib" where
  "alloc e l = (length (heap l), l\<lparr>heap := heap l @ [e]\<rparr>)"

text \<open>An assignment to a field of the scene object \<open>r\<close>.\<close>

definition modify :: "nat \<Rightarrow> (entity \<Rightarrow> entity) \<Rightarrow> lib \<Rightarrow> lib" where
  "modify r f l = l\<lparr>heap := (heap l)[r := f (heap l ! r)]\<rparr>"

definition warn :: "warning \<Rightarrow> lib \<Rightarrow> lib" where
  "warn w l = l\<lparr>warnings := warnings l @ [w]\<rparr>"

subsection \<open>\<open>_parseMeshes\<close>\<close>


text \<open>
  The variables \<open>size\<close> and \<open>ArrayCtor\<close> are declared with \<open>var\<close> inside the loop
  body, so they belong to the whole function and keep their values from one attribute
  to the next. \<open>None\<close> is \<open>undefined\<close>.
\<close>

record mesh_vars =
  v_size :: "nat option"
  v_ArrayCtor :: "ctor option"

text \<open>Lines 650-673: the legacy schema, a \<open>switch\<close> on the numeric \<open>type\<close>.\<close>

definition legacy_type :: "acc_type option \<Rightarrow> nat option" where
  "legacy_type t =
     (case t of
        Some (TypeNum n) \<Rightarrow>
          (if n = 0x8B50 then Some 2
           else if n = 0x8B51 then Some 3
           else if n = 0x8B52 then Some 4
           else if n = 0x1406 then Some 1
           else None)
      | _ \<Rightarrow> None)"

text \<open>Lines 676-692: the two tables of the current schema.\<close>

definition component_ctor :: "nat \<Rightarrow> ctor" where
  "component_ctor ct =
     (if ct = 5120 then Int8Array
      else if ct = 5121 then Uint8Array
      else if ct = 5122 then Int16Array
      else if ct = 5123 then Uint16Array
      else Float32Array)"

definition type_size :: "acc_type option \<Rightarrow> nat option" where
  "type_size t =
     (case t of
        Some (TypeStr s) \<Rightarrow>
          [''SCALAR'' \<mapsto> 1, ''VEC2'' \<mapsto> 2, ''VEC3'' \<mapsto> 3, ''VEC4'' \<mapsto> 4,
           ''MAT2'' \<mapsto> 4, ''MAT3'' \<mapsto> 9, ''MAT4'' \<mapsto> 16] s
      | _ \<Rightarrow> None)"

fun decode_type :: "accessor_info \<Rightarrow> mesh_vars \<times> lib \<Rightarrow> mesh_vars \<times> lib" where
  "decode_type attributeInfo (vars, l) =
     (case componentType attributeInfo of
        None \<Rightarrow>
          (case legacy_type (a_type attributeInfo) of
             Some n \<Rightarrow> (\<lparr>v_size = Some n, v_ArrayCtor = Some Float32Array\<rparr>, l)
           | None \<Rightarrow> (vars, warn (AttributeTypeNotSupported (a_type attributeInfo)) l))
      | Some ct \<Rightarrow>
          (\<lparr>v_size = type_size (a_type attributeInfo), v_ArrayCtor = Some (component_ctor ct)\<rparr>, l))"

declare decode_type.simps [simp del]



text \<open>
  \<open>json.bufferViews[k]\<close> and the two properties that are read of it: the name under
  which \<open>lib.buffers\<close> is looked up, and the byte offset. For an inherited member both
  properties are \<open>undefined\<close>: the name is then the key "undefined", and the offset
  is \<open>None\<close>.
\<close>

definition bufferView_at :: "document \<Rightarrow> string \<Rightarrow> (string \<times> nat option) option" where
  "bufferView_at json k =
     (case property (bufferViews json) k of
        None \<Rightarrow> None
      | Some (Own bufferViewInfo) \<Rightarrow> Some (buffer bufferViewInfo, Some (bv_byteOffset bufferViewInfo))
      | Some (Member m) \<Rightarrow> Some (''undefined'', None))"

text \<open>
  The properties that are read of what \<open>json.accessors[k]\<close> found; they are
  \<open>undefined\<close> for an inherited member.
\<close>

fun acc_bufferView :: "accessor_info found \<Rightarrow> string" where
  "acc_bufferView (Own a) = bufferView a"
| "acc_bufferView (Member m) = ''undefined''"

fun acc_byteOffset :: "accessor_info found \<Rightarrow> nat option" where
  "acc_byteOffset (Own a) = Some (byteOffset a)"
| "acc_byteOffset (Member m) = None"

fun acc_count :: "accessor_info found \<Rightarrow> nat option" where
  "acc_count (Own a) = Some (a_count a)"
| "acc_count (Member m) = None"

text \<open>
  The sum of two byte offsets as the typed array constructor reads it, and the product
  of a count and a size: with an \<open>undefined\<close> operand both are NaN, which the
  constructor converts to 0 when it is the offset; for the length see \<open>new_view\<close>.
\<close>

definition offset_sum :: "nat option \<Rightarrow> nat option \<Rightarrow> nat" where
  "offset_sum a b = (case (a, b) of (Some x, Some y) \<Rightarrow> x + y | _ \<Rightarrow> 0)"

definition length_product :: "nat option \<Rightarrow> nat option \<Rightarrow> nat option" where
  "length_product a b = (case (a, b) of (Some x, Some y) \<Rightarrow> Some (x * y) | _ \<Rightarrow> None)"
















subsection \<open>\<open>_parseNodes\<close>\<close>

text \<open>The truth value of a string property: \<open>undefined\<close> and the empty string are false.\<close>

fun truthy_string :: "string option \<Rightarrow> bool" where
  "truthy_string None = False"
| "truthy_string (Some s) = (s \<noteq> [])"

text \<open>\<open>array[0]\<close> on an array of the document.\<close>

fun first_of :: "'a list \<Rightarrow> 'a option" where
  "first_of [] = None"
| "first_of (x # xs) = Some x"

definition setName :: "nat \<Rightarrow> string option \<Rightarrow> lib \<Rightarrow> lib" where
  "setName r n = modify r (\<lambda>e. e\<lparr>e_name := n\<rparr>)"

text \<open>
  Modelled from the spec: \<open>Node.add\<close> is not in the source. It attaches the child to
  the parent: the child is appended to the parent's children and gets the parent as its
  back-reference. A child that is an inherited member is appended too; the
  back-reference is then a property of that member, which is no scene object.
\<close>

definition add :: "nat \<Rightarrow> ref \<Rightarrow> lib \<Rightarrow> lib" where
  "add parent child l =
     (let l' = modify parent (\<lambda>e. e\<lparr>e_children := e_children e @ [child]\<rparr>) l
      in (case child of
            Own c \<Rightarrow> modify c (\<lambda>e. e\<lparr>e_parent := Some parent\<rparr>) l'
          | Member m \<Rightarrow> l'))"

text \<open>
  Lines 896-922, \<open>_parseLight\<close>: the new light, or \<open>undefined\<close> after a warning. The
  colour is read from the property named like the type, which must exist.
\<close>

definition new_light :: "kind \<Rightarrow> light_info \<Rightarrow> light_params option \<Rightarrow> lib \<Rightarrow> error + (nat option \<times> lib)" where
  "new_light k lightInfo ps l =
     (case ps of
        None \<Rightarrow> Inl TypeError
      | Some p \<Rightarrow>
          (let (r, l') = alloc ((new_entity k (light_id lightInfo))\<lparr>e_color := lp_color p\<rparr>) l
           in Inr (Some r, l')))"

definition parseLight :: "light_info \<Rightarrow> lib \<Rightarrow> error + (nat option \<times> lib)" where
  "parseLight lightInfo l =
     (if light_type lightInfo = Some ''point'' then new_light PointLight lightInfo (point lightInfo) l
      else if light_type lightInfo = Some ''spot'' then new_light SpotLight lightInfo (spot lightInfo) l
      else if light_type lightInfo = Some ''directional''
        then new_light DirectionalLight lightInfo (directional lightInfo) l
      else Inr (None, warn (LightNotSupported (light_type lightInfo)) l))"

text \<open>
  What \<open>json.lights[k]\<close> and \<open>json.cameras[k]\<close> find, read as a descriptor: every
  property of an inherited member that the loader reads is \<open>undefined\<close>.
\<close>

definition light_at :: "document \<Rightarrow> string \<Rightarrow> light_info option" where
  "light_at json k =
     (case property (lights json) k of
        None \<Rightarrow> None
      | Some (Own lightInfo) \<Rightarrow> Some lightInfo
      | Some (Member m) \<Rightarrow>
          Some \<lparr>light_type = None, light_id = None, point = None, spot = None,
                directional = None\<rparr>)"

definition camera_at :: "document \<Rightarrow> string \<Rightarrow> camera_info option" where
  "camera_at json k =
     (case property (cameras json) k of
        None \<Rightarrow> None
      | Some (Own cameraInfo) \<Rightarrow> Some cameraInfo
      | Some (Member m) \<Rightarrow>
          Some \<lparr>projection = None, aspect_ratio = None, xfov = None, zfar = None,
                znear = None\<rparr>)"

text \<open>Lines 801-808: the lights of a node; the ones that could not be made are left out.\<close>

fun parse_lights :: "document \<Rightarrow> string list \<Rightarrow> lib \<times> nat list \<Rightarrow> error + (lib \<times> nat list)" where
  "parse_lights json [] st = Inr st"
| "parse_lights json (i # is) (l, ls) =
     (case light_at json i of
        None \<Rightarrow> Inl TypeError
      | Some lightInfo \<Rightarrow>
          (case parseLight lightInfo l of
             Inl e \<Rightarrow> Inl e
           | Inr (None, l') \<Rightarrow> parse_lights json is (l', ls)
           | Inr (Some light, l') \<Rightarrow> parse_lights json is (l', ls @ [light])))"

text \<open>
  The four branches of lines 780-855. Each takes \<open>lib\<close> and the variable \<open>node\<close>, which is
  declared with \<open>var\<close> inside the loop body and therefore keeps the object of the
  previous descriptor until a branch assigns to it.
\<close>

definition camera_node :: "document \<Rightarrow> node_info \<Rightarrow> lib \<Rightarrow> error + (lib \<times> nat option)" where
  "camera_node json nodeInfo l =
     (case camera_at json (prop_key (ni_camera nodeInfo)) of
        None \<Rightarrow> Inl TypeError
      | Some cameraInfo \<Rightarrow>
          (let (r, l1) =
                 (if projection cameraInfo = Some ''perspective''
                  then alloc ((new_entity PerspectiveCamera (ni_name nodeInfo))
                                \<lparr>e_camera := Some cameraInfo\<rparr>) l
                  else (let (r, l') = alloc (new_entity OrthographicCamera None) l
                        in (r, warn TODO_Orthographic_camera l')));
               l2 = setName r (ni_name nodeInfo) l1
           in Inr (l2\<lparr>lib_cameras := (lib_cameras l2)(prop_key (ni_name nodeInfo) \<mapsto> r)\<rparr>,
                   Some r)))"

definition light_node :: "document \<Rightarrow> node_info \<Rightarrow> string list \<Rightarrow> lib \<Rightarrow> error + (lib \<times> nat option)" where
  "light_node json nodeInfo ids l =
     (case parse_lights json ids (l, []) of
        Inl e \<Rightarrow> Inl e
      | Inr (l1, ls) \<Rightarrow>
          (if length ls = 1 then Inr (setName (ls ! 0) (ni_name nodeInfo) l1, Some (ls ! 0))
           else (let (r, l2) = alloc (new_entity Node None) l1;
                     l3 = setName r (ni_name nodeInfo) l2
                 in Inr (fold (\<lambda>light. add r (Own light)) ls l3, Some r))))"

text \<open>Lines 824-830: \<open>nodeInfo.meshes[0]\<close>, or else \<open>nodeInfo.instanceSkin.sources[0]\<close>.\<close>

definition meshKey_of :: "node_info \<Rightarrow> error + string option" where
  "meshKey_of nodeInfo =
     (case ni_meshes nodeInfo of
        Some ms \<Rightarrow> Inr (first_of ms)
      | None \<Rightarrow>
          (case ni_instanceSkin nodeInfo of
             None \<Rightarrow> Inl TypeError
           | Some is \<Rightarrow>
               (case sources is of
                  None \<Rightarrow> Inl TypeError
                | Some ss \<Rightarrow> Inr (first_of ss))))"

text \<open>Lines 840-847: the primitives of a mesh under a new node.\<close>

definition add_primitive :: "node_info \<Rightarrow> nat \<Rightarrow> nat \<Rightarrow> lib \<Rightarrow> lib" where
  "add_primitive nodeInfo r p l =
     add r (Own p)
       (case ni_instanceSkin nodeInfo of
          Some is \<Rightarrow> modify p (\<lambda>e. e\<lparr>e_skeleton := Some (SkinName (skin is))\<rparr>) l
        | None \<Rightarrow> l)"

text \<open>
  Lines 831-850. When \<open>lib.meshes\<close> has no mesh under the key but an inherited member,
  that member is taken for the array of primitives. If its \<open>length\<close> is 1 the node is
  its entry 0, which is \<open>undefined\<close>, and line 837 raises. If it has no \<open>length\<close> or
  the length 0 a new node without children is made. If the length is 2 the first
  primitive is \<open>undefined\<close>, and line 844 or \<open>Node.add\<close> raises.
\<close>

definition container_node :: "node_info \<Rightarrow> nat list \<Rightarrow> lib \<Rightarrow> lib \<times> nat option" where
  "container_node nodeInfo ps l =
     (let (r, l1) = alloc (new_entity Node None) l;
          l2 = setName r (ni_name nodeInfo) l1
      in (fold (add_primitive nodeInfo r) ps l2, Some r))"

definition mesh_node :: "node_info \<Rightarrow> lib \<times> nat option \<Rightarrow> error + (lib \<times> nat option)" where
  "mesh_node nodeInfo = (\<lambda>(l, node).
     (case meshKey_of nodeInfo of
        Inl e \<Rightarrow> Inl e
      | Inr meshKey \<Rightarrow>
          (if truthy_string meshKey then
             (case property (lib_meshes l) (prop_key meshKey) of
                None \<Rightarrow> Inr (l, node)
              | Some (Own ps) \<Rightarrow>
                  (if length ps = 1 then Inr (setName (ps ! 0) (ni_name nodeInfo) l, Some (ps ! 0))
                   else Inr (container_node nodeInfo ps l))
              | Some (Member m) \<Rightarrow>
                  (if member_length m = None \<or> member_length m = Some 0
                   then Inr (container_node nodeInfo [] l)
                   else Inl TypeError))
           else Inr (l, node))))"

definition plain_node :: "node_info \<Rightarrow> lib \<Rightarrow> lib \<times> nat option" where
  "plain_node nodeInfo l =
     (let (r, l1) = alloc (new_entity Node None) l
      in (setName r (ni_name nodeInfo) l1, Some r))"

definition select_node ::
  "loader \<Rightarrow> document \<Rightarrow> node_info \<Rightarrow> lib \<times> nat option \<Rightarrow> error + (lib \<times> nat option)" where
  "select_node self json nodeInfo = (\<lambda>(l, node).
     (if truthy_string (ni_camera nodeInfo) \<and> includeCamera self then camera_node json nodeInfo l
      else if ni_lights nodeInfo \<noteq> None \<and> includeLight self
        then light_node json nodeInfo (the (ni_lights nodeInfo)) l
      else if (ni_meshes nodeInfo \<noteq> None \<or> ni_instanceSkin nodeInfo \<noteq> None) \<and> includeMesh self
        then mesh_node nodeInfo (l, node)
      else Inr (plain_node nodeInfo l)))"

text \<open>
  Lines 856-877. \<open>decompose\<close> stands for \<open>decomposeLocalTransform\<close>, which is not in
  the source: it gives the translation, the rotation and the scale of a matrix. Each
  assignment needs \<open>node\<close> to be an object.
\<close>

definition assign ::
  "nat option \<Rightarrow> (entity \<Rightarrow> entity) \<Rightarrow> lib \<Rightarrow> error + lib" where
  "assign node f l = (case node of None \<Rightarrow> Inl TypeError | Some r \<Rightarrow> Inr (modify r f l))"

definition assign_when ::
  "'a option \<Rightarrow> nat option \<Rightarrow> ('a \<Rightarrow> entity \<Rightarrow> entity) \<Rightarrow> error + lib \<Rightarrow> error + lib" where
  "assign_when field node f res =
     (case res of
        Inl e \<Rightarrow> Inl e
      | Inr l \<Rightarrow> (case field of None \<Rightarrow> Inr l | Some v \<Rightarrow> assign node (f v) l))"

definition apply_transform ::
  "(real list \<Rightarrow> real list \<times> real list \<times> real list) \<Rightarrow> node_info \<Rightarrow> nat option \<Rightarrow> lib \<Rightarrow>
   error + lib" where
  "apply_transform decompose nodeInfo node l =
     (case ni_matrix nodeInfo of
        Some m \<Rightarrow>
          assign node
            (\<lambda>e. (case decompose m of
                     (t, q, s) \<Rightarrow>
                       e\<lparr>e_localTransform := m, e_position := t, e_rotation := q, e_scale := s\<rparr>)) l
      | None \<Rightarrow>
          assign_when (ni_scale nodeInfo) node (\<lambda>s e. e\<lparr>e_scale := s\<rparr>)
            (assign_when (ni_rotation nodeInfo) node (\<lambda>q e. e\<lparr>e_rotation := q\<rparr>)
               (assign_when (ni_translation nodeInfo) node (\<lambda>t e. e\<lparr>e_position := t\<rparr>)
                  (Inr l))))"

text \<open>Lines 778-879: the body of the first loop over \<open>json.nodes\<close>.\<close>

definition parse_node ::
  "loader \<Rightarrow> (real list \<Rightarrow> real list \<times> real list \<times> real list) \<Rightarrow> document \<Rightarrow>
   string \<times> node_info \<Rightarrow> lib \<times> nat option \<Rightarrow> error + (lib \<times> nat option)" where
  "parse_node self decompose json = (\<lambda>(name, nodeInfo) st.
     (case select_node self json nodeInfo st of
        Inl e \<Rightarrow> Inl e
      | Inr (l1, node) \<Rightarrow>
          (case apply_transform decompose nodeInfo node l1 of
             Inl e \<Rightarrow> Inl e
           | Inr l2 \<Rightarrow> Inr (l2\<lparr>lib_nodes := (lib_nodes l2)(name \<mapsto> node)\<rparr>, node))))"

fun parse_nodes ::
  "loader \<Rightarrow> (real list \<Rightarrow> real list \<times> real list \<times> real list) \<Rightarrow> document \<Rightarrow>
   (string \<times> node_info) list \<Rightarrow> lib \<times> nat option \<Rightarrow> error + (lib \<times> nat option)" where
  "parse_nodes self decompose json [] st = Inr st"
| "parse_nodes self decompose json (n # ns) st =
     (case parse_node self decompose json n st of
        Inl e \<Rightarrow> Inl e
      | Inr st' \<Rightarrow> parse_nodes self decompose json ns st')"

text \<open>
  Lines 887-891: \<open>node.add(child)\<close> for every child id of a descriptor. The call
  raises when \<open>node\<close> is not a scene object. \<open>Node.add\<close> is modelled from the spec (see
  \<open>add\<close>); to give a child that is \<open>undefined\<close> its back-reference raises.
\<close>

fun attach_children :: "ref option \<Rightarrow> string list \<Rightarrow> lib \<Rightarrow> error + lib" where
  "attach_children node [] l = Inr l"
| "attach_children node (childName # rest) l =
     (case node of
        Some (Own r) \<Rightarrow>
          (case node_at l childName of
             None \<Rightarrow> Inl TypeError
           | Some child \<Rightarrow> attach_children node rest (add r child l))
      | _ \<Rightarrow> Inl TypeError)"

text \<open>Lines 883-893: the second loop over \<open>json.nodes\<close>, which builds the hierarchy.\<close>

fun build_hierarchy :: "(string \<times> node_info) list \<Rightarrow> lib \<Rightarrow> error + lib" where
  "build_hierarchy [] l = Inr l"
| "build_hierarchy ((name, nodeInfo) # rest) l =
     (case ni_children nodeInfo of
        None \<Rightarrow> build_hierarchy rest l
      | Some cs \<Rightarrow>
          (case attach_children (node_at l name) cs l of
             Inl e \<Rightarrow> Inl e
           | Inr l' \<Rightarrow> build_hierarchy rest l'))"

text \<open>\<open>_parseNodes\<close>: the two loops. The variable \<open>node\<close> of the first is \<open>undefined\<close> at the start.\<close>

definition parseNodes ::
  "loader \<Rightarrow> (real list \<Rightarrow> real list \<times> real list \<times> real list) \<Rightarrow> document \<Rightarrow> lib \<Rightarrow> error + lib" where
  "parseNodes self decompose json l =
     (case parse_nodes self decompose json (nodes json) (l, None) of
        Inl e \<Rightarrow> Inl e
      | Inr (l', node) \<Rightarrow> build_hierarchy (nodes json) l')"

subsection \<open>\<open>_parseSkins\<close>\<close>

text \<open>
  Lines 314-321: one joint for every entry of \<open>skinInfo.joints\<close>, pushed onto
  \<open>skeleton.joints\<close> with the length of that list as its index.
\<close>

definition new_Joint :: "string option \<Rightarrow> int option \<Rightarrow> joint" where
  "new_Joint n i =
     \<lparr>j_name = n, j_index = i, j_node = Unset, j_parentIndex = Unset, j_rootNode = Unset\<rparr>"

fun create_joints :: "string list \<Rightarrow> joint list \<Rightarrow> joint list" where
  "create_joints [] joints = joints"
| "create_joints (jointId # rest) joints =
     create_joints rest (joints @ [new_Joint (Some jointId) (Some (int (length joints)))])"

text \<open>Lines 322-336: the view of the inverse bind matrices and an array of the same length.\<close>

definition inverseBind :: "document \<Rightarrow> lib \<Rightarrow> ibm_info \<Rightarrow> error + typed_array \<times> typed_array" where
  "inverseBind json l IBMInfo =
     (case bufferView_at json (ibm_bufferView IBMInfo) of
        None \<Rightarrow> Inl TypeError
      | Some (bufferName, bvOffset) \<Rightarrow>
          (case new_view (lib_buffers l) Float32Array bufferName
                  (offset_sum (Some (ibm_byteOffset IBMInfo)) bvOffset)
                  (Some (ibm_count IBMInfo * 16)) of
             Inl e \<Rightarrow> Inl e
           | Inr array \<Rightarrow> Inr (array, new_array Float32Array (ta_length array))))"

text \<open>Lines 309-338: the loop over \<open>json.skins\<close>, with the flag \<open>haveInvBindMatrices\<close>.\<close>

fun create_skeletons ::
  "document \<Rightarrow> (string \<times> skin_info) list \<Rightarrow> bool \<times> lib \<Rightarrow> error + (bool \<times> lib)" where
  "create_skeletons json [] st = Inr st"
| "create_skeletons json ((name, skinInfo) # rest) (haveInvBindMatrices, l) =
     (let sk = \<lparr>s_name = name, s_joints = create_joints (sk_joints skinInfo) [], s_roots = [],
                 s_invBindPoseMatricesArray = None, s_skinMatricesArray = None\<rparr>
      in (case inverseBindMatrices skinInfo of
            None \<Rightarrow>
              create_skeletons json rest
                (haveInvBindMatrices, l\<lparr>lib_skeletons := (lib_skeletons l)(name \<mapsto> sk)\<rparr>)
          | Some IBMInfo \<Rightarrow>
              (case inverseBind json l IBMInfo of
                 Inl e \<Rightarrow> Inl e
               | Inr (array, skinMatrices) \<Rightarrow>
                   create_skeletons json rest
                     (True, l\<lparr>lib_skeletons := (lib_skeletons l)(name \<mapsto>
                                 sk\<lparr>s_invBindPoseMatricesArray := Some array,
                                    s_skinMatricesArray := Some skinMatrices\<rparr>)\<rparr>))))"

text \<open>
  Lines 340-367, \<open>bindNodeToJoint\<close>; \<open>bind_joint\<close> is lines 341-360, which give the
  variable \<open>joint\<close>, the joints of the skeleton and the parent index for the children.
  The joints of \<open>jointsMap\<close> are the joints of the
  skeleton, so the map gives positions in \<open>skeleton.joints\<close>, and an assignment to a
  matched joint changes that list. \<open>jointsMap\<close> is a plain object: a joint id like
  \<open>'constructor'\<close> finds an inherited member, which is true at line 344 and is taken for
  the matched joint; its \<open>index\<close> is \<open>undefined\<close>, and that becomes the parent index
  of the subtree. Lines 346-348 then assign to the member; when the member is
  \<open>Object.prototype\<close> itself the run ends as \<open>Unmodelled\<close>. A node name that finds no
  descriptor but an inherited member raises like one that finds nothing, at line 362.
  The function calls itself for every child; \<open>fuel\<close> is the depth of calls that the
  stack of the engine allows, beyond which the engine raises a \<open>RangeError\<close>. The
  result is the value of the variable \<open>joint\<close> at the \<open>return\<close> (\<open>None\<close> would be
  \<open>undefined\<close>) and the joints of the skeleton.
\<close>

definition bind_joint ::
  "lib \<Rightarrow> (string \<rightharpoonup> nat) \<Rightarrow> string \<Rightarrow> node_info \<Rightarrow> int option \<Rightarrow> ref option \<Rightarrow> joint list \<Rightarrow>
   joint_ref option \<times> joint list \<times> int option" where
  "bind_joint l jointsMap nodeName nodeInfo parentIndex rootNode js =
     (let node = node_at l nodeName
      in (case property jointsMap (prop_key (ni_jointId nodeInfo)) of
            Some (Own i) \<Rightarrow>
              (Some (InSkeleton i),
               js[i := (js ! i)\<lparr>j_node := Given node, j_parentIndex := Given parentIndex,
                                 j_rootNode := Given rootNode\<rparr>],
               j_index (js ! i))
          | Some (Member m) \<Rightarrow> (Some (NoJoint m), js, None)
          | None \<Rightarrow>
              (Some (Synthetic ((new_Joint None None)
                       \<lparr>j_node := Given node, j_rootNode := Given rootNode,
                        j_parentIndex := Given parentIndex\<rparr>)),
               js, parentIndex)))"

fun bindNodeToJoint ::
  "nat \<Rightarrow> document \<Rightarrow> lib \<Rightarrow> (string \<rightharpoonup> nat) \<Rightarrow> string \<Rightarrow> int option \<Rightarrow> ref option \<Rightarrow> joint list \<Rightarrow>
   error + (joint_ref option \<times> joint list)"
and bindChildren ::
  "nat \<Rightarrow> document \<Rightarrow> lib \<Rightarrow> (string \<rightharpoonup> nat) \<Rightarrow> string list \<Rightarrow> int option \<Rightarrow> ref option \<Rightarrow> joint list \<Rightarrow>
   error + joint list" where
  "bindNodeToJoint 0 json l jointsMap nodeName parentIndex rootNode js = Inl RangeError"
| "bindNodeToJoint (Suc fuel) json l jointsMap nodeName parentIndex rootNode js =
     (case map_of (nodes json) nodeName of
        None \<Rightarrow> Inl TypeError
      | Some nodeInfo \<Rightarrow>
          (if property jointsMap (prop_key (ni_jointId nodeInfo)) = Some (Member ''__proto__'')
           then Inl Unmodelled
           else
             (case bind_joint l jointsMap nodeName nodeInfo parentIndex rootNode js of
                (joint, js1, parentIndex1) \<Rightarrow>
                  (case ni_children nodeInfo of
                     None \<Rightarrow> Inl TypeError
                   | Some cs \<Rightarrow>
                       (case bindChildren fuel json l jointsMap cs parentIndex1 rootNode js1 of
                          Inl e \<Rightarrow> Inl e
                        | Inr js2 \<Rightarrow> Inr (joint, js2))))))"
| "bindChildren fuel json l jointsMap [] parentIndex rootNode js = Inr js"
| "bindChildren fuel json l jointsMap (c # cs) parentIndex rootNode js =
     (case bindNodeToJoint fuel json l jointsMap c parentIndex rootNode js of
        Inl e \<Rightarrow> Inl e
      | Inr (joint, js1) \<Rightarrow> bindChildren fuel json l jointsMap cs parentIndex rootNode js1)"

text \<open>
  Lines 377-398, \<open>enableSkinningForMesh\<close>: the mesh gets the skeleton, the joint
  indices and a clone of its material that knows the number of joints. Line 381 raises
  when the object has no material; an inherited member, which a child of a node can be,
  has none.
\<close>

definition enableSkinningForMesh ::
  "loader \<Rightarrow> ref \<Rightarrow> string \<Rightarrow> int option list \<Rightarrow> lib \<Rightarrow> error + lib" where
  "enableSkinningForMesh self mesh skeletonName jointIndices l =
     (case mesh of
        Member m \<Rightarrow> Inl TypeError
      | Own r \<Rightarrow>
          (case e_material (heap l ! r) of
             None \<Rightarrow> Inl TypeError
           | Some material \<Rightarrow>
               (if m_standard material
                then Inr (modify r
                       (\<lambda>e. e\<lparr>e_skeleton := Some (SkeletonObject skeletonName),
                               e_joints := Some jointIndices,
                               e_material := Some (material\<lparr>m_jointCount := Some (length jointIndices)\<rparr>)\<rparr>) l)
                else (case m_shader material of
                        None \<Rightarrow> Inl TypeError
                      | Some originalShader \<Rightarrow>
                          Inr (modify r
                            (\<lambda>e. e\<lparr>e_skeleton := Some (SkeletonObject skeletonName),
                                    e_joints := Some jointIndices,
                                    e_material := Some (material\<lparr>m_shader := Some
                                      \<lparr>sh_name = shaderName self,
                                       sh_textures = sh_textures originalShader,
                                       sh_joint_count = Some (length jointIndices)\<rparr>\<rparr>)\<rparr>) l)))))"

fun enableSkinningForMeshes ::
  "loader \<Rightarrow> ref list \<Rightarrow> string \<Rightarrow> int option list \<Rightarrow> lib \<Rightarrow> error + lib" where
  "enableSkinningForMeshes self [] skeletonName jointIndices l = Inr l"
| "enableSkinningForMeshes self (c # cs) skeletonName jointIndices l =
     (case enableSkinningForMesh self c skeletonName jointIndices l of
        Inl e \<Rightarrow> Inl e
      | Inr l' \<Rightarrow> enableSkinningForMeshes self cs skeletonName jointIndices l')"

text \<open>
  Lines 409-419: the node itself when it is a mesh, its children otherwise. An
  inherited member is no mesh and has no \<open>_children\<close>, so line 416 raises on it.
\<close>

definition enable_skinning :: "loader \<Rightarrow> ref option \<Rightarrow> string \<Rightarrow> int option list \<Rightarrow> lib \<Rightarrow> error + lib" where
  "enable_skinning self node skeletonName jointIndices l =
     (case node of
        Some (Own r) \<Rightarrow>
          (if e_kind (heap l ! r) = Mesh
           then enableSkinningForMesh self (Own r) skeletonName jointIndices l
           else enableSkinningForMeshes self (e_children (heap l ! r)) skeletonName jointIndices l)
      | _ \<Rightarrow> Inl TypeError)"

text \<open>Lines 421-425: the joints by name; a later joint of the same name replaces an earlier.\<close>

fun jointsMap_of :: "joint list \<Rightarrow> nat \<Rightarrow> (string \<rightharpoonup> nat) \<Rightarrow> (string \<rightharpoonup> nat)" where
  "jointsMap_of [] i jointsMap = jointsMap"
| "jointsMap_of (joint # rest) i jointsMap =
     jointsMap_of rest (Suc i) (jointsMap(prop_key (j_name joint) \<mapsto> i))"

text \<open>
  Lines 427-435: the walk from every root node of the skin. \<open>rootJoint\<close> is pushed onto
  \<open>skeleton.roots\<close> unless it is \<open>undefined\<close>.
\<close>

fun bind_roots ::
  "nat \<Rightarrow> document \<Rightarrow> lib \<Rightarrow> (string \<rightharpoonup> nat) \<Rightarrow> string list \<Rightarrow> skeleton \<Rightarrow> error + skeleton" where
  "bind_roots fuel json l jointsMap [] sk = Inr sk"
| "bind_roots fuel json l jointsMap (rootId # rest) sk =
     (case bindNodeToJoint fuel json l jointsMap rootId (Some (- 1)) (node_at l rootId)
             (s_joints sk) of
        Inl e \<Rightarrow> Inl e
      | Inr (rootJoint, js) \<Rightarrow>
          bind_roots fuel json l jointsMap rest
            (case rootJoint of
               Some j \<Rightarrow> sk\<lparr>s_joints := js, s_roots := s_roots sk @ [j]\<rparr>
             | None \<Rightarrow> sk\<lparr>s_joints := js\<rparr>))"

text \<open>
  Lines 402-436: the body of the loop over \<open>json.nodes\<close>. Line 410 reads
  \<open>skeleton.joints\<close> and raises when \<open>lib.skeletons\<close> has no skeleton under the
  name, also when the name finds an inherited member, which has no \<open>joints\<close>.
\<close>

definition bind_skin :: "nat \<Rightarrow> loader \<Rightarrow> document \<Rightarrow> string \<times> node_info \<Rightarrow> lib \<Rightarrow> error + lib" where
  "bind_skin fuel self json = (\<lambda>(name, nodeInfo) l.
     (case ni_instanceSkin nodeInfo of
        None \<Rightarrow> Inr l
      | Some is \<Rightarrow>
          (case lib_skeletons l (prop_key (skin is)) of
             None \<Rightarrow> Inl TypeError
           | Some sk \<Rightarrow>
               (case enable_skinning self (node_at l name) (prop_key (skin is))
                       (map j_index (s_joints sk)) l of
                  Inl e \<Rightarrow> Inl e
                | Inr l1 \<Rightarrow>
                    (case skeletons is of
                       None \<Rightarrow> Inl TypeError
                     | Some rootNodes \<Rightarrow>
                         (case bind_roots fuel json l1 (jointsMap_of (s_joints sk) 0 Map.empty)
                                 rootNodes sk of
                            Inl e \<Rightarrow> Inl e
                          | Inr sk' \<Rightarrow>
                              Inr (l1\<lparr>lib_skeletons :=
                                        (lib_skeletons l1)(prop_key (skin is) \<mapsto> sk')\<rparr>)))))))"

fun bind_skins ::
  "nat \<Rightarrow> loader \<Rightarrow> document \<Rightarrow> (string \<times> node_info) list \<Rightarrow> lib \<Rightarrow> error + lib" where
  "bind_skins fuel self json [] l = Inr l"
| "bind_skins fuel self json (n # ns) l =
     (case bind_skin fuel self json n l of
        Inl e \<Rightarrow> Inl e
      | Inr l' \<Rightarrow> bind_skins fuel self json ns l')"

text \<open>
  \<open>_parseSkins\<close> up to line 437. The last loop, lines 439-448, calls methods of
  \<open>Skeleton\<close> that are not in the source; they compute matrices and are taken to leave
  the joints and the roots of the skeletons as they are.
\<close>

definition parseSkins :: "nat \<Rightarrow> loader \<Rightarrow> document \<Rightarrow> lib \<Rightarrow> error + lib" where
  "parseSkins fuel self json l =
     (case create_skeletons json (skins json) (False, l) of
        Inl e \<Rightarrow> Inl e
      | Inr (haveInvBindMatrices, l1) \<Rightarrow> bind_skins fuel self json (nodes json) l1)"


text \<open>The indices of the joints of the skeleton stored under a name, in list order.\<close>

definition skeleton_indices :: "lib \<Rightarrow> string \<Rightarrow> int option list option" where
  "skeleton_indices l name = map_option (\<lambda>sk. map j_index (s_joints sk)) (lib_skeletons l name)"

subsection \<open>\<open>_parseAnimations\<close>\<close>

text \<open>
  Modelled from the spec: \<open>quat.setAxisAngle\<close> belongs to glMatrix, which is not in the
  source. The spec calls it the "standard axis-angle-to-quaternion construction": the
  axis scaled by the sine of half the angle, and the cosine of half the angle. The
  result is the four components of \<open>out\<close>.
\<close>

definition setAxisAngle :: "jsnum \<times> jsnum \<times> jsnum \<Rightarrow> jsnum \<Rightarrow> jsnum list" where
  "setAxisAngle axis rad =
     (case axis of
        (x, y, z) \<Rightarrow>
          (let half = js_mul rad (Fin (1/2));
               s = math_sin half
           in [js_mul s x, js_mul s y, js_mul s z, math_cos half]))"

text \<open>
  Lines 935-957: the typed array of one parameter. The variable \<open>size\<close> is declared with
  \<open>var\<close> in the \<open>switch\<close> and keeps its value when no case matches; here it is \<open>sz\<close>.
  No case matches for an inherited member as accessor, whose \<open>type\<close> is \<open>undefined\<close>.
\<close>

fun decode_parameters ::
  "document \<Rightarrow> lib \<Rightarrow> (string \<times> string) list \<Rightarrow> nat option \<times> (string \<rightharpoonup> typed_array) \<Rightarrow>
   error + (nat option \<times> (string \<rightharpoonup> typed_array))" where
  "decode_parameters json l [] st = Inr st"
| "decode_parameters json l ((paramName, accessorName) # rest) (sz, params) =
     (case property (accessors json) accessorName of
        None \<Rightarrow> Inl TypeError
      | Some accessorInfo \<Rightarrow>
          (case bufferView_at json (acc_bufferView accessorInfo) of
             None \<Rightarrow> Inl TypeError
           | Some (bufferName, bvOffset) \<Rightarrow>
               (let size' = (case accessorInfo of
                               Own a \<Rightarrow>
                                 (case legacy_type (a_type a) of Some n \<Rightarrow> Some n | None \<Rightarrow> sz)
                             | Member m \<Rightarrow> sz)
                in (case new_view (lib_buffers l) Float32Array bufferName
                          (offset_sum bvOffset (acc_byteOffset accessorInfo))
                          (length_product size' (acc_count accessorInfo)) of
                      Inl e \<Rightarrow> Inl e
                    | Inr array \<Rightarrow>
                        decode_parameters json l rest (size', params(paramName \<mapsto> array))))))"

text \<open>
  Lines 971-984: the body of the conversion loop for the sample \<open>i\<close>. The time is read,
  multiplied and written back; the rotation is read into \<open>quatTmp\<close>, a float array,
  converted and written back. Every write goes to the buffer of the view.
\<close>

definition convert_sample ::
  "typed_array \<Rightarrow> typed_array \<Rightarrow> nat \<Rightarrow> (string \<rightharpoonup> arraybuffer) \<Rightarrow> (string \<rightharpoonup> arraybuffer)" where
  "convert_sample time rotationArr i buffers =
     (let b1 = view_set buffers time i
                 (Some (js_mul (to_element Float32Array (ta_get buffers time i)) (Fin 1000)));
          offset = i * 4;
          q = setAxisAngle
                (to_element Float32Array (ta_get b1 rotationArr offset),
                 to_element Float32Array (ta_get b1 rotationArr (offset + 1)),
                 to_element Float32Array (ta_get b1 rotationArr (offset + 2)))
                (to_element Float32Array (ta_get b1 rotationArr (offset + 3)));
          b2 = view_set b1 rotationArr offset (Some (q ! 0));
          b3 = view_set b2 rotationArr (offset + 1) (Some (q ! 1));
          b4 = view_set b3 rotationArr (offset + 2) (Some (q ! 2))
      in view_set b4 rotationArr (offset + 3) (Some (q ! 3)))"

definition convert_rotations ::
  "typed_array \<Rightarrow> typed_array option \<Rightarrow> (string \<rightharpoonup> arraybuffer) \<Rightarrow> (string \<rightharpoonup> arraybuffer)" where
  "convert_rotations time rotationArr buffers =
     (case rotationArr of
        None \<Rightarrow> buffers
      | Some rot \<Rightarrow> fold (convert_sample time rot) [0..<ta_length time] buffers)"

text \<open>
  Lines 932-1000: the body of the loop over \<open>json.animations\<close>. The target is what
  \<open>lib.nodes\<close> has under the id of the first channel's target; line 992 reads its
  \<open>name\<close> and raises when it is \<open>undefined\<close>. The samples are converted before that.
  Line 1000 reads \<open>TIME[TIME.length - 1]\<close> after the conversion; for an empty array that
  is the index \<open>-1\<close>, which reads \<open>undefined\<close>.
\<close>

definition parse_animation ::
  "document \<Rightarrow> animation_info \<Rightarrow> nat option \<times> lib \<Rightarrow> error + (nat option \<times> lib)" where
  "parse_animation json animationInfo = (\<lambda>(sz, l).
     (case decode_parameters json l (parameters animationInfo) (sz, Map.empty) of
        Inl e \<Rightarrow> Inl e
      | Inr (size1, params) \<Rightarrow>
          (case params ''TIME'' of
             None \<Rightarrow> Inr (size1, l)
           | Some time \<Rightarrow>
               (case channels animationInfo of
                  [] \<Rightarrow> Inr (size1, l)
                | ch # other \<Rightarrow>
                    (case target ch of
                       None \<Rightarrow> Inl TypeError
                     | Some tg \<Rightarrow>
                         (let targetId = prop_key (target_id tg);
                              buffers' = convert_rotations time (params ''rotation'') (lib_buffers l)
                          in (case node_at l targetId of
                                None \<Rightarrow> Inl TypeError
                              | Some targetNode \<Rightarrow>
                                  Inr (size1,
                                       l\<lparr>lib_buffers := buffers',
                                         lib_clips := (lib_clips l)(targetId \<mapsto>
                                           \<lparr>c_name = (case targetNode of
                                                        Own r \<Rightarrow> e_name (heap l ! r)
                                                      | Member m \<Rightarrow> member_name m),
                                            c_target = targetNode,
                                            c_time = Some time,
                                            c_rotation = params ''rotation'',
                                            c_position = params ''translation'',
                                            c_scale = params ''scale'',
                                            c_life = (if ta_length time = 0 then None
                                                      else ta_get buffers' time (ta_length time - 1))\<rparr>)\<rparr>))))))))"

fun parse_animations ::
  "document \<Rightarrow> (string \<times> animation_info) list \<Rightarrow> nat option \<times> lib \<Rightarrow> error + (nat option \<times> lib)" where
  "parse_animations json [] st = Inr st"
| "parse_animations json ((animName, animationInfo) # rest) st =
     (case parse_animation json animationInfo st of
        Inl e \<Rightarrow> Inl e
      | Inr st' \<Rightarrow> parse_animations json rest st')"

text \<open>\<open>_parseAnimations\<close>: \<open>lib.clips\<close> starts empty (line 927) and is what is returned.\<close>

definition parseAnimations :: "document \<Rightarrow> lib \<Rightarrow> error + lib" where
  "parseAnimations json l =
     (case parse_animations json (animations json) (None, l\<lparr>lib_clips := Map.empty\<rparr>) of
        Inl e \<Rightarrow> Inl e
      | Inr (sz, l') \<Rightarrow> Inr l')"
subsection \<open>\<open>_parseTextures\<close>\<close>





subsection \<open>The stages in order\<close>






subsection \<open>Example documents\<close>

definition example_loader :: loader where
  "example_loader =
     \<lparr>rootPath = None, textureRootPath = None, shaderName = ''qtek.standard'',
      useStandardMaterial = False, includeCamera = True, includeLight = True,
      includeAnimation = True, includeMesh = True, includeTexture = True\<rparr>"

definition example_techniques :: "(string \<times> technique_info) list" where
  "example_techniques =
     [(''tech'', \<lparr>passes = None, pass = None,
         t_states = Some \<lparr>depthMask = None, depthTestEnable = Some True,
                           cullFaceEnable = None, blendEnable = None\<rparr>\<rparr>)]"

definition example_materials :: "(string \<times> material_info) list" where
  "example_materials =
     [(''shiny'', \<lparr>mi_name = Some ''shiny'', technique = Some ''tech'',
         mi_values = Some [(''shininess'', UNum (Fin 8192))], instanceTechnique = Undefined\<rparr>),
      (''plain'', \<lparr>mi_name = Some ''plain'', technique = Some ''tech'',
         mi_values = Some [(''diffuse'', UStr ''wood'')], instanceTechnique = Undefined\<rparr>)]"

definition example_textures :: "string \<rightharpoonup> texture" where
  "example_textures = [''wood'' \<mapsto> Texture2D ''wood.png'']"


definition example_buffers :: "string \<rightharpoonup> arraybuffer" where
  "example_buffers = [''buf'' \<mapsto> \<lparr>byteLength = 16, cell = (\<lambda>c off. Fin (real off))\<rparr>]"

definition example_lib :: lib where
  "example_lib =
     \<lparr>heap = [], lib_buffers = example_buffers, lib_textures = Map.empty,
      lib_materials = Map.empty, lib_meshes = Map.empty, lib_nodes = Map.empty, lib_cameras = Map.empty,
      lib_skeletons = Map.empty, lib_clips = Map.empty, warnings = []\<rparr>"

definition example_accessors :: "string \<rightharpoonup> accessor_info" where
  "example_accessors =
     [''weights'' \<mapsto> \<lparr>bufferView = ''view'', byteOffset = 0, componentType = Some 5121,
                        a_type = Some (TypeStr ''VEC4''), a_count = 2, a_min = None, a_max = None\<rparr>,
      ''normals'' \<mapsto> \<lparr>bufferView = ''view'', byteOffset = 4, componentType = Some 5126,
                        a_type = Some (TypeStr ''VEC3''), a_count = 1, a_min = None, a_max = None\<rparr>,
      ''triangle'' \<mapsto> \<lparr>bufferView = ''view'', byteOffset = 0, componentType = Some 5123,
                        a_type = Some (TypeStr ''SCALAR''), a_count = 3, a_min = None, a_max = None\<rparr>]"

definition example_primitive :: primitive_info where
  "example_primitive =
     \<lparr>attributes = [(''NORMAL'', ''normals'')], indices = Some ''triangle'',
      p_material = Some ''paint''\<rparr>"

definition example_mesh :: mesh_info where
  "example_mesh = \<lparr>primitives = [example_primitive], mesh_name = Some ''tri''\<rparr>"

definition example_document :: document where
  "example_document =
     \<lparr>accessors = example_accessors,
      bufferViews = [''view'' \<mapsto> \<lparr>buffer = ''buf'', bv_byteOffset = 0\<rparr>],
      meshes = [(''tri'', example_mesh)],
      nodes = [], cameras = Map.empty, lights = Map.empty, skins = [],
      animations = [], d_techniques = example_techniques, d_materials = example_materials,
      d_textures = [], samplers = Map.empty, images = Map.empty,
      scenes = [''main'' \<mapsto> \<lparr>sc_nodes = Some []\<rparr>], scene = Some ''main''\<rparr>"



text \<open>
  In the examples \<open>decomposeLocalTransform\<close> is the decomposition of a matrix that only
  translates: the translation is the last column, and there is no rotation or scale.
\<close>

definition example_decompose :: "real list \<Rightarrow> real list \<times> real list \<times> real list" where
  "example_decompose m = (take 3 (drop 12 m), [0, 0, 0, 1], [1, 1, 1])"

definition empty_node :: node_info where
  "empty_node =
     \<lparr>ni_name = None, ni_camera = None, ni_lights = None, ni_meshes = None,
      ni_instanceSkin = None, ni_matrix = None, ni_translation = None, ni_rotation = None,
      ni_scale = None, ni_children = None, ni_jointId = None\<rparr>"

definition shared_mesh_lib :: lib where
  "shared_mesh_lib =
     example_lib\<lparr>heap := [(new_entity Mesh (Some ''tri''))], lib_meshes := [''tri'' \<mapsto> [0]]\<rparr>"

definition shared_mesh_document :: document where
  "shared_mesh_document =
     example_document\<lparr>nodes :=
       [(''a'', empty_node\<lparr>ni_name := Some ''a'', ni_meshes := Some [''tri''],
                            ni_translation := Some [1, 2, 3], ni_scale := Some [2, 2, 2]\<rparr>),
        (''b'', empty_node\<lparr>ni_name := Some ''b'', ni_meshes := Some [''tri''],
                            ni_scale := Some [5, 5, 5]\<rparr>)]\<rparr>"

text \<open>
  The descriptor \<open>q\<close> names a mesh that is not in \<open>lib.meshes\<close>; the descriptor \<open>p\<close>
  before it is a plain node.
\<close>

definition stale_node_document :: document where
  "stale_node_document =
     example_document\<lparr>nodes :=
       [(''p'', empty_node\<lparr>ni_name := Some ''p'', ni_translation := Some [1, 2, 3]\<rparr>),
        (''q'', empty_node\<lparr>ni_name := Some ''q'', ni_meshes := Some [''ghost''],
                            ni_scale := Some [5, 5, 5]\<rparr>)]\<rparr>"

definition fisheye_document :: document where
  "fisheye_document =
     example_document\<lparr>
       cameras := [''lens'' \<mapsto> \<lparr>projection = Some ''fisheye'', aspect_ratio = None,
                                 xfov = None, zfar = None, znear = None\<rparr>],
       nodes := [(''cam'', empty_node\<lparr>ni_name := Some ''cam'', ni_camera := Some ''lens''\<rparr>)]\<rparr>"

text \<open>
  A skinned mesh \<open>body\<close> with the joints \<open>hip\<close> and \<open>knee\<close>; the root node of the skin
  is bound to no joint of the skin.
\<close>

definition skinned_document :: document where
  "skinned_document =
     example_document\<lparr>
       skins := [(''skin'', \<lparr>sk_joints = [''hip'', ''knee''], inverseBindMatrices = None\<rparr>)],
       nodes :=
         [(''body'', empty_node\<lparr>ni_instanceSkin :=
              Some \<lparr>skin = Some ''skin'', sources = Some [''tri''], skeletons = Some [''root'']\<rparr>\<rparr>),
          (''root'', empty_node\<lparr>ni_jointId := Some ''pelvis'', ni_children := Some [''hipnode'']\<rparr>),
          (''hipnode'', empty_node\<lparr>ni_jointId := Some ''hip'', ni_children := Some [''kneenode'']\<rparr>),
          (''kneenode'', empty_node\<lparr>ni_jointId := Some ''knee'', ni_children := Some []\<rparr>)]\<rparr>"


definition skinned_lib :: lib where
  "skinned_lib =
     example_lib\<lparr>
       heap := [(new_entity Mesh (Some ''body''))
                  \<lparr>e_material := Some (new_Material None (shaderLib_get ''qtek.standard'' []))\<rparr>,
                new_entity Node (Some ''root''), new_entity Node (Some ''hipnode''),
                new_entity Node (Some ''kneenode'')],
       lib_nodes := [''body'' \<mapsto> Some 0, ''root'' \<mapsto> Some 1, ''hipnode'' \<mapsto> Some 2,
                     ''kneenode'' \<mapsto> Some 3]\<rparr>"

definition example_joints :: "joint list" where
  "example_joints = create_joints [''hip'', ''knee''] []"

definition example_skeleton :: skeleton where
  "example_skeleton =
     \<lparr>s_name = ''skin'', s_joints = example_joints, s_roots = [],
      s_invBindPoseMatricesArray = None, s_skinMatricesArray = None\<rparr>"

definition example_depth :: nat where
  "example_depth = Suc (Suc (Suc (Suc 0)))"

text \<open>
  A buffer of ten floats: the times 1 and 2, then the rotations \<open>(0, 0, 1, \<pi>)\<close> and
  \<open>(1, 0, 0, 0)\<close> as axis and angle. The track \<open>spin\<close> has a time and a rotation
  parameter, the track \<open>still\<close> has no time parameter.
\<close>

definition anim_cell :: "ctor \<Rightarrow> nat \<Rightarrow> jsnum" where
  "anim_cell c off =
     (if off = 0 then Fin 1 else if off = 4 then Fin 2
      else if off = 16 then Fin 1 else if off = 20 then Fin pi
      else if off = 24 then Fin 1 else Fin 0)"

definition anim_lib :: lib where
  "anim_lib = skinned_lib\<lparr>lib_buffers := [''anim'' \<mapsto> \<lparr>byteLength = 40, cell = anim_cell\<rparr>]\<rparr>"

definition spin_track :: animation_info where
  "spin_track =
     \<lparr>parameters = [(''TIME'', ''times''), (''rotation'', ''turns'')],
      channels = [\<lparr>target = Some \<lparr>target_id = Some ''root''\<rparr>\<rparr>]\<rparr>"

definition still_track :: animation_info where
  "still_track =
     \<lparr>parameters = [(''rotation'', ''turns'')],
      channels = [\<lparr>target = Some \<lparr>target_id = Some ''root''\<rparr>\<rparr>]\<rparr>"

definition anim_document :: document where
  "anim_document =
     skinned_document\<lparr>
       accessors :=
         [''times'' \<mapsto> \<lparr>bufferView = ''animview'', byteOffset = 0, componentType = None,
                          a_type = Some (TypeNum 0x1406), a_count = 2, a_min = None, a_max = None\<rparr>,
          ''turns'' \<mapsto> \<lparr>bufferView = ''animview'', byteOffset = 8, componentType = None,
                          a_type = Some (TypeNum 0x8B52), a_count = 2, a_min = None, a_max = None\<rparr>],
       bufferViews := [''animview'' \<mapsto> \<lparr>buffer = ''anim'', bv_byteOffset = 0\<rparr>],
       animations := [(''spin'', spin_track), (''still'', still_track)]\<rparr>"

text \<open>
  Two tracks over the same accessors, for the nodes \<open>root\<close> and \<open>hipnode\<close>; and a track
  whose target names no node.
\<close>

definition echo_track :: animation_info where
  "echo_track = spin_track\<lparr>channels := [\<lparr>target = Some \<lparr>target_id = Some ''hipnode''\<rparr>\<rparr>]\<rparr>"

definition shared_anim_document :: document where
  "shared_anim_document =
     anim_document\<lparr>animations := [(''spin'', spin_track), (''echo'', echo_track)]\<rparr>"

definition ghost_track :: animation_info where
  "ghost_track = spin_track\<lparr>channels := [\<lparr>target = Some \<lparr>target_id = Some ''ghost''\<rparr>\<rparr>]\<rparr>"

definition ghost_anim_document :: document where
  "ghost_anim_document = anim_document\<lparr>animations := [(''ghost'', ghost_track)]\<rparr>"

section \<open>Lookups in plain objects\<close>

lemma property_own [simp]: "table k = Some v \<Longrightarrow> property table k = Some (Own v)"
  by (simp add: property_def)

lemma property_nothing: "table k = None \<Longrightarrow> \<not> inherited k \<Longrightarrow> property table k = None"
  by (simp add: property_def)

lemma property_member: "table k = None \<Longrightarrow> inherited k \<Longrightarrow> property table k = Some (Member k)"
  by (simp add: property_def)

lemma property_None_iff: "property table k = None \<longleftrightarrow> table k = None \<and> \<not> inherited k"
  by (simp add: property_def split: option.splits)

lemma property_Own_iff: "property table k = Some (Own v) \<longleftrightarrow> table k = Some v"
  by (simp add: property_def split: option.splits)

lemma property_Member_iff:
  "property table k = Some (Member m) \<longleftrightarrow> table k = None \<and> inherited k \<and> m = k"
  by (auto simp: property_def split: option.splits)

lemma inherited_simps [simp]:
  "inherited ''constructor''" "inherited ''__proto__''" "\<not> inherited ''undefined''"
  by (simp_all add: inherited_def prototype_members_def)


section \<open>Properties of \<open>_parseMaterials\<close>\<close>


lemma material_set_uniforms [simp]:
  "m_uniforms (material_set k v m) = (m_uniforms m)(k \<mapsto> v)"
  by (simp add: material_set_def)

lemma set_alpha_uniforms:
  "k \<noteq> ''alpha'' \<Longrightarrow> m_uniforms (set_alpha tr m) k = m_uniforms m k"
  by (simp add: set_alpha_def)

lemma set_sliced_uniforms:
  "set_sliced key v m = Inr m' \<Longrightarrow> k \<noteq> key \<Longrightarrow> m_uniforms m' k = m_uniforms m k"
  by (auto simp: set_sliced_def split: if_splits sum.splits)

lemma set_shininess_present:
  assumes "sh \<noteq> UNull"
  shows "m_uniforms (set_shininess (Some sh) m) ''glossiness'' =
           Some (UNum (js_div (math_log (to_number sh)) (math_log (Fin 8192))))"
    and "m_uniforms (set_shininess (Some sh) m) ''roughness'' =
           Some (UNum (js_sub (Fin 1) (js_div (math_log (to_number sh)) (math_log (Fin 8192)))))"
    and "m_uniforms (set_shininess (Some sh) m) ''shininess'' = Some sh"
  using assms by (cases sh; simp add: set_shininess_def Let_def)+

lemma set_shininess_absent:
  assumes "\<not> not_null sh"
  shows "m_uniforms (set_shininess sh m) ''glossiness'' = Some (UNum (Fin (1/2)))"
    and "m_uniforms (set_shininess sh m) ''shininess'' = Some (UNum (Fin (1/2)))"
    and "m_uniforms (set_shininess sh m) ''roughness'' = m_uniforms m ''roughness''"
  using assms by (simp_all add: set_shininess_def)

lemma build_material_shininess:
  assumes "build_material self techniques mi = Inr m"
  shows "\<exists>vs m4. mi_values mi = Some vs \<and>
           (\<forall>k. k \<noteq> ''specularColor'' \<longrightarrow> k \<noteq> ''alpha'' \<longrightarrow>
              m_uniforms m k = m_uniforms (set_shininess (map_of vs ''shininess'') m4) k)"
proof -
  from assms obtain vs m4 m6 where vs: "mi_values mi = Some vs"
    and m6: "set_sliced ''specularColor'' (map_of vs ''specular'')
               (set_shininess (map_of vs ''shininess'') m4) = Inr m6"
    and m: "m = set_alpha (map_of vs ''transparency'') m6"
    by (auto simp: build_material_def Let_def split: option.splits sum.splits)
  have "m_uniforms m k = m_uniforms (set_shininess (map_of vs ''shininess'') m4) k"
    if "k \<noteq> ''specularColor''" "k \<noteq> ''alpha''" for k
    using that set_sliced_uniforms [OF m6, of k] by (simp add: m set_alpha_uniforms)
  with vs show ?thesis by blast
qed

lemma parseMaterials_loop_other:
  "parseMaterials_loop self textures techniques js lib0 = (js', Inr lib1) \<Longrightarrow>
   n \<notin> fst ` set js \<Longrightarrow> lib1 n = lib0 n"
proof (induction js arbitrary: lib0 js')
  case Nil
  then show ?case by auto
next
  case (Cons a js)
  obtain k mi0 where a: "a = (k, mi0)" by (cases a)
  from Cons.prems(1) obtain m0 rest' where
    r: "parseMaterials_loop self textures techniques js (lib0(k \<mapsto> m0)) = (rest', Inr lib1)"
    by (auto simp: a Let_def split: sum.splits prod.splits)
  from Cons.IH [OF r] Cons.prems(2) a show ?case by auto
qed

text \<open>The loop stores, under each name, the material built from the updated descriptor.\<close>

lemma parseMaterials_loop_lookup:
  assumes "parseMaterials_loop self textures techniques js lib0 = (js', Inr lib1)"
      and "distinct (map fst js)"
      and "(name, mi) \<in> set js"
  shows "\<exists>m. lib1 name = Some m \<and>
             build_material self techniques (update_materialInfo textures mi) = Inr m"
  using assms
proof (induction js arbitrary: lib0 js')
  case Nil
  then show ?case by simp
next
  case (Cons a js)
  obtain n mi0 where a: "a = (n, mi0)" by (cases a)
  from Cons.prems(1) obtain m0 rest' where
    b: "build_material self techniques (update_materialInfo textures mi0) = Inr m0"
    and r: "parseMaterials_loop self textures techniques js (lib0(n \<mapsto> m0)) = (rest', Inr lib1)"
    by (auto simp: a Let_def split: sum.splits prod.splits)
  show ?case
  proof (cases "(name, mi) \<in> set js")
    case True
    with Cons.IH [OF r] Cons.prems(2) show ?thesis by simp
  next
    case False
    with Cons.prems(3) a have eq: "name = n" "mi = mi0" by auto
    have "n \<notin> fst ` set js" using Cons.prems(2) a by simp
    have keep: "lib1 n = Some m0"
      using parseMaterials_loop_other [OF r \<open>n \<notin> fst ` set js\<close>] by simp
    with b eq show ?thesis by simp
  qed
qed






text \<open>The example document is parsed without an exception.\<close>

lemma example_parse:
  "\<exists>json' lib. parseMaterials example_loader example_textures example_techniques example_materials Map.empty = (json', Inr lib)"
  by (simp add: parseMaterials_def example_loader_def example_textures_def example_techniques_def
        example_materials_def update_materialInfo_def resolve_uniforms_def build_material_def
        create_material_def set_states_def set_diffuse_def set_normalMap_def set_sliced_def
        set_shininess_def set_alpha_def Let_def property_def)


text \<open>
  Claim C6. Let \<open>_parseMaterials\<close> complete, and take any material descriptor of the
  document; \<open>vs\<close> is its \<open>values\<close> table as the stage resolves it (the table
  \<open>uniforms\<close> of the source). If \<open>vs\<close> holds a shininess \<open>sh\<close> that is not null, the
  material stored under the descriptor's name has glossiness
  \<open>Math.log(sh) / Math.log(8192)\<close>, roughness \<open>1 - glossiness\<close> and shininess \<open>sh\<close>
  itself; for a positive number \<open>s\<close> these are \<open>ln s / ln 8192\<close> and
  \<open>1 - ln s / ln 8192\<close>. If \<open>vs\<close> holds no shininess (or null), glossiness and
  shininess are both 0.5.
\<close>

theorem shininess_derives_glossiness:
  assumes "parseMaterials self textures json_techniques json_materials lib0 = (json', Inr lib_mats)"
      and "distinct (map fst json_materials)"
      and "(name, mi) \<in> set json_materials"
  shows "\<exists>m vs. lib_mats name = Some m \<and>
           mi_values (update_materialInfo textures mi) = Some vs \<and>
           (\<forall>sh. map_of vs ''shininess'' = Some sh \<and> sh \<noteq> UNull \<longrightarrow>
              m_uniforms m ''glossiness'' =
                Some (UNum (js_div (math_log (to_number sh)) (math_log (Fin 8192)))) \<and>
              m_uniforms m ''roughness'' =
                Some (UNum (js_sub (Fin 1) (js_div (math_log (to_number sh)) (math_log (Fin 8192))))) \<and>
              m_uniforms m ''shininess'' = Some sh) \<and>
           (\<forall>s. map_of vs ''shininess'' = Some (UNum (Fin s)) \<and> 0 < s \<longrightarrow>
              m_uniforms m ''glossiness'' = Some (UNum (Fin (ln s / ln 8192))) \<and>
              m_uniforms m ''roughness'' = Some (UNum (Fin (1 - ln s / ln 8192)))) \<and>
           (map_of vs ''shininess'' = None \<or> map_of vs ''shininess'' = Some UNull \<longrightarrow>
              m_uniforms m ''glossiness'' = Some (UNum (Fin (1/2))) \<and>
              m_uniforms m ''shininess'' = Some (UNum (Fin (1/2))))"
proof -
  from parseMaterials_loop_lookup [OF assms [unfolded parseMaterials_def]]
  obtain m where m: "lib_mats name = Some m"
    and b: "build_material self (parse_techniques json_techniques Map.empty)
              (update_materialInfo textures mi) = Inr m"
    by blast
  from b obtain vs m4 where vs: "mi_values (update_materialInfo textures mi) = Some vs"
    and u: "\<And>k. k \<noteq> ''specularColor'' \<Longrightarrow> k \<noteq> ''alpha'' \<Longrightarrow>
              m_uniforms m k = m_uniforms (set_shininess (map_of vs ''shininess'') m4) k"
    using build_material_shininess by blast
  have g: "m_uniforms m ''glossiness'' = m_uniforms (set_shininess (map_of vs ''shininess'') m4) ''glossiness''"
    and r: "m_uniforms m ''roughness'' = m_uniforms (set_shininess (map_of vs ''shininess'') m4) ''roughness''"
    and s: "m_uniforms m ''shininess'' = m_uniforms (set_shininess (map_of vs ''shininess'') m4) ''shininess''"
    by (simp_all add: u)
  have present: "m_uniforms m ''glossiness'' =
        Some (UNum (js_div (math_log (to_number sh)) (math_log (Fin 8192)))) \<and>
      m_uniforms m ''roughness'' =
        Some (UNum (js_sub (Fin 1) (js_div (math_log (to_number sh)) (math_log (Fin 8192))))) \<and>
      m_uniforms m ''shininess'' = Some sh"
    if "map_of vs ''shininess'' = Some sh" "sh \<noteq> UNull" for sh
    using that by (simp add: g r s set_shininess_present)
  have numeric: "m_uniforms m ''glossiness'' = Some (UNum (Fin (ln x / ln 8192))) \<and>
      m_uniforms m ''roughness'' = Some (UNum (Fin (1 - ln x / ln 8192)))"
    if "map_of vs ''shininess'' = Some (UNum (Fin x))" "0 < x" for x
    using present [OF that(1)] that(2) by simp
  have absent: "m_uniforms m ''glossiness'' = Some (UNum (Fin (1/2))) \<and>
      m_uniforms m ''shininess'' = Some (UNum (Fin (1/2)))"
    if "map_of vs ''shininess'' = None \<or> map_of vs ''shininess'' = Some UNull"
  proof -
    from that have "\<not> not_null (map_of vs ''shininess'')" by auto
    then show ?thesis by (simp add: g s set_shininess_absent)
  qed
  from m vs present numeric absent show ?thesis by blast
qed

text \<open>
  Witness for C6 on the example document: the material with shininess 8192 gets
  glossiness 1 and roughness 0, the one without shininess gets 0.5 and 0.5.
\<close>

theorem shininess_derives_glossiness_witness:
  "(case snd (parseMaterials example_loader example_textures example_techniques
                example_materials Map.empty) of
      Inl e \<Rightarrow> False
    | Inr lib \<Rightarrow>
        map_option (\<lambda>m. m_uniforms m ''glossiness'') (lib ''shiny'') = Some (Some (UNum (Fin 1))) \<and>
        map_option (\<lambda>m. m_uniforms m ''roughness'') (lib ''shiny'') = Some (Some (UNum (Fin 0))) \<and>
        map_option (\<lambda>m. m_uniforms m ''shininess'') (lib ''shiny'') = Some (Some (UNum (Fin 8192))) \<and>
        map_option (\<lambda>m. m_uniforms m ''glossiness'') (lib ''plain'') = Some (Some (UNum (Fin (1/2)))) \<and>
        map_option (\<lambda>m. m_uniforms m ''shininess'') (lib ''plain'') = Some (Some (UNum (Fin (1/2)))))"
proof -
  obtain json' lib where run:
    "parseMaterials example_loader example_textures example_techniques example_materials Map.empty
       = (json', Inr lib)"
    using example_parse by blast
  have d: "distinct (map fst example_materials)"
    by (simp add: example_materials_def)
  have shiny: "(''shiny'', \<lparr>mi_name = Some ''shiny'', technique = Some ''tech'',
         mi_values = Some [(''shininess'', UNum (Fin 8192))], instanceTechnique = Undefined\<rparr>)
       \<in> set example_materials"
    and plain: "(''plain'', \<lparr>mi_name = Some ''plain'', technique = Some ''tech'',
         mi_values = Some [(''diffuse'', UStr ''wood'')], instanceTechnique = Undefined\<rparr>)
       \<in> set example_materials"
    by (simp_all add: example_materials_def)
  from shininess_derives_glossiness [OF run d shiny]
  have 1: "map_option (\<lambda>m. m_uniforms m ''glossiness'') (lib ''shiny'') = Some (Some (UNum (Fin 1)))"
          "map_option (\<lambda>m. m_uniforms m ''roughness'') (lib ''shiny'') = Some (Some (UNum (Fin 0)))"
          "map_option (\<lambda>m. m_uniforms m ''shininess'') (lib ''shiny'') = Some (Some (UNum (Fin 8192)))"
    by (auto simp: update_materialInfo_def resolve_uniforms_def)
  from shininess_derives_glossiness [OF run d plain]
  have 2: "map_option (\<lambda>m. m_uniforms m ''glossiness'') (lib ''plain'') = Some (Some (UNum (Fin (1/2))))"
          "map_option (\<lambda>m. m_uniforms m ''shininess'') (lib ''plain'') = Some (Some (UNum (Fin (1/2))))"
    by (auto simp: update_materialInfo_def resolve_uniforms_def)
  from 1 2 show ?thesis by (simp add: run)
qed







section \<open>Properties of \<open>_parseMeshes\<close>\<close>
















subsection \<open>Dangling references\<close>

















text \<open>The attributes of a primitive leave everything in \<open>lib\<close> but the warnings as it is.\<close>

lemma decode_type_lib:
  "decode_type ai (vars, l) = (vars', l') \<Longrightarrow>
   heap l' = heap l \<and> lib_materials l' = lib_materials l \<and> lib_meshes l' = lib_meshes l"
  by (auto simp: decode_type.simps warn_def split: option.splits)










section \<open>Properties of \<open>_parseNodes\<close>\<close>

lemmas example_node_defs = parseNodes_def parse_node_def select_node_def camera_node_def
  camera_at_def light_node_def mesh_node_def container_node_def meshKey_of_def plain_node_def
  apply_transform_def assign_when_def assign_def alloc_def setName_def modify_def warn_def
  new_entity_def node_at_def property_def
  empty_node_def example_lib_def example_loader_def example_document_def example_decompose_def

text \<open>
  Claim C3 fails on the code. In \<open>shared_mesh_document\<close> the descriptors \<open>a\<close> and \<open>b\<close>
  name the same mesh of one primitive, so line 836 gives both the one mesh object as
  their node: \<open>lib.nodes\<close> has the same object under \<open>a\<close> and \<open>b\<close>. Descriptor \<open>b\<close> has
  no matrix and no translation, and its node has the position \<open>[1, 2, 3]\<close> that
  descriptor \<open>a\<close> gave it, not the identity; descriptor \<open>a\<close> has the scale
  \<open>[2, 2, 2]\<close>, and its node has the scale \<open>[5, 5, 5]\<close> of descriptor \<open>b\<close>. In
  \<open>stale_node_document\<close> the mesh of descriptor \<open>q\<close> is not in \<open>lib.meshes\<close>, no branch
  assigns to the variable \<open>node\<close>, and \<open>q\<close> is given the node object of descriptor
  \<open>p\<close>, with the same effect.
\<close>

theorem shared_node_transform:
  "parseNodes example_loader example_decompose shared_mesh_document shared_mesh_lib =
     Inr (shared_mesh_lib
            \<lparr>heap := [(new_entity Mesh (Some ''b''))\<lparr>e_position := [1, 2, 3], e_scale := [5, 5, 5]\<rparr>],
             lib_nodes := [''a'' \<mapsto> Some 0, ''b'' \<mapsto> Some 0]\<rparr>) \<and>
   parseNodes example_loader example_decompose stale_node_document example_lib =
     Inr (example_lib
            \<lparr>heap := [(new_entity Node (Some ''p''))\<lparr>e_position := [1, 2, 3], e_scale := [5, 5, 5]\<rparr>],
             lib_nodes := [''p'' \<mapsto> Some 0, ''q'' \<mapsto> Some 0]\<rparr>)"
  by (simp add: example_node_defs shared_mesh_document_def shared_mesh_lib_def
        stale_node_document_def inherited_def prototype_members_def)

text \<open>
  Claim C7, amended. For a node descriptor that names a camera whose projection is
  not \<open>'perspective'\<close> (orthographic or anything else), lines 780-799 make a new
  \<open>OrthographicCamera\<close> with the node's name and no parameters, warn
  \<open>'TODO:Orthographic camera'\<close>, and enter the camera in \<open>lib.cameras\<close> under the
  node's name. No generic node is made.
\<close>

theorem non_perspective_camera:
  assumes "truthy_string (ni_camera nodeInfo)"
      and "includeCamera self"
      and "cameras json (prop_key (ni_camera nodeInfo)) = Some cameraInfo"
      and "projection cameraInfo \<noteq> Some ''perspective''"
  shows "\<exists>l1. select_node self json nodeInfo (l, node) = Inr (l1, Some (length (heap l))) \<and>
           heap l1 = heap l @ [new_entity OrthographicCamera (ni_name nodeInfo)] \<and>
           warnings l1 = warnings l @ [TODO_Orthographic_camera] \<and>
           lib_cameras l1 = (lib_cameras l)(prop_key (ni_name nodeInfo) \<mapsto> length (heap l))"
  using assms
  by (simp add: select_node_def camera_node_def camera_at_def alloc_def warn_def setName_def
        modify_def new_entity_def Let_def)

text \<open>
  Claim C7 as stated fails: the camera of \<open>fisheye_document\<close> has the projection
  \<open>'fisheye'\<close>, and the node stored for it is an \<open>OrthographicCamera\<close>, registered as a
  camera, not a generic \<open>Node\<close>.
\<close>

theorem generic_node_counterexample:
  "parseNodes example_loader example_decompose fisheye_document example_lib =
     Inr (example_lib
            \<lparr>heap := [new_entity OrthographicCamera (Some ''cam'')],
             lib_nodes := [''cam'' \<mapsto> Some 0], lib_cameras := [''cam'' \<mapsto> 0],
             warnings := [TODO_Orthographic_camera]\<rparr>)"
  by (simp add: example_node_defs fisheye_document_def)

text \<open>Witness for the amended C7 on the same descriptor.\<close>

theorem non_perspective_camera_witness:
  "\<exists>l1. select_node example_loader fisheye_document
           (empty_node\<lparr>ni_name := Some ''cam'', ni_camera := Some ''lens''\<rparr>) (example_lib, None)
         = Inr (l1, Some 0) \<and>
        map e_kind (heap l1) = [OrthographicCamera] \<and>
        warnings l1 = [TODO_Orthographic_camera] \<and>
        lib_cameras l1 ''cam'' = Some 0"
  using non_perspective_camera [of "empty_node\<lparr>ni_name := Some ''cam'', ni_camera := Some ''lens''\<rparr>"
          example_loader fisheye_document
          "\<lparr>projection = Some ''fisheye'', aspect_ratio = None, xfov = None, zfar = None, znear = None\<rparr>"
          example_lib None]
  by (auto simp: fisheye_document_def example_loader_def example_lib_def empty_node_def
        new_entity_def)


section \<open>Properties of \<open>_parseSkins\<close>\<close>


lemma create_joints_index:
  "map j_index (create_joints ids js) =
     map j_index js @ map (\<lambda>k. Some (int k)) [length js ..< length js + length ids]"
proof (induction ids arbitrary: js)
  case Nil
  then show ?case by simp
next
  case (Cons a ids)
  have "[length js ..< length js + length (a # ids)] =
          length js # [Suc (length js) ..< Suc (length js) + length ids]"
    by (subst upt_rec) simp
  with Cons [of "js @ [new_Joint (Some a) (Some (int (length js)))]"]
  show ?case by (simp add: new_Joint_def)
qed

lemma create_joints_indices:
  "map j_index (create_joints ids []) = map (\<lambda>k. Some (int k)) [0 ..< length ids]"
  using create_joints_index [of ids "[]"] by simp

text \<open>What it means for a list of joints to be indexed by position.\<close>

lemma indexed_iff:
  "map j_index js = map (\<lambda>k. Some (int k)) [0 ..< n] \<longleftrightarrow>
   length js = n \<and> (\<forall>i < length js. j_index (js ! i) = Some (int i))"
proof
  assume a: "map j_index js = map (\<lambda>k. Some (int k)) [0 ..< n]"
  then have len: "length js = n" by (metis length_map length_upt minus_nat.diff_0)
  have "j_index (js ! i) = Some (int i)" if "i < length js" for i
  proof -
    from that have "j_index (js ! i) = map j_index js ! i" by simp
    also have "\<dots> = Some (int i)" using that len by (simp add: a)
    finally show ?thesis .
  qed
  with len show "length js = n \<and> (\<forall>i < length js. j_index (js ! i) = Some (int i))" by blast
next
  assume "length js = n \<and> (\<forall>i < length js. j_index (js ! i) = Some (int i))"
  then show "map j_index js = map (\<lambda>k. Some (int k)) [0 ..< n]"
    by (auto intro!: nth_equalityI)
qed

text \<open>Lines 341-360 leave the indices of the joints as they are and give a value to \<open>joint\<close>.\<close>

lemma bind_joint_indices:
  "bind_joint l jointsMap nodeName nodeInfo parentIndex rootNode js = (joint, js1, parentIndex1) \<Longrightarrow>
   map j_index js1 = map j_index js \<and> joint \<noteq> None"
proof -
  have same: "map j_index (js[i := (js ! i)\<lparr>j_node := a, j_parentIndex := b, j_rootNode := c\<rparr>])
                = map j_index js" for i a b c
    by (simp add: map_update) (metis list_update_id map_update)
  assume "bind_joint l jointsMap nodeName nodeInfo parentIndex rootNode js = (joint, js1, parentIndex1)"
  then show ?thesis
    by (cases "property jointsMap (prop_key (ni_jointId nodeInfo))")
       (auto simp: bind_joint_def Let_def same split: found.splits)
qed


text \<open>What a call that returns has gone through.\<close>

lemma bind_returns:
  assumes "bindNodeToJoint fuel json l jointsMap nodeName parentIndex rootNode js = Inr (joint, js')"
  shows "\<exists>fuel' nodeInfo cs js1 parentIndex1.
           fuel = Suc fuel' \<and> map_of (nodes json) nodeName = Some nodeInfo \<and>
           property jointsMap (prop_key (ni_jointId nodeInfo)) \<noteq> Some (Member ''__proto__'') \<and>
           bind_joint l jointsMap nodeName nodeInfo parentIndex rootNode js = (joint, js1, parentIndex1) \<and>
           ni_children nodeInfo = Some cs \<and>
           bindChildren fuel' json l jointsMap cs parentIndex1 rootNode js1 = Inr js'"
proof (cases fuel)
  case 0
  with assms show ?thesis by simp
next
  case (Suc fuel')
  with assms obtain nodeInfo where ni: "map_of (nodes json) nodeName = Some nodeInfo"
    by (cases "map_of (nodes json) nodeName") simp_all
  from assms Suc ni
  have np: "property jointsMap (prop_key (ni_jointId nodeInfo)) \<noteq> Some (Member ''__proto__'')"
    by (auto split: if_splits)
  obtain j js1 p1 where bj:
    "bind_joint l jointsMap nodeName nodeInfo parentIndex rootNode js = (j, js1, p1)"
    by (cases "bind_joint l jointsMap nodeName nodeInfo parentIndex rootNode js") auto
  from assms Suc ni np bj obtain cs where cs: "ni_children nodeInfo = Some cs"
    by (cases "ni_children nodeInfo") simp_all
  from assms Suc ni np bj cs
  have "bindChildren fuel' json l jointsMap cs p1 rootNode js1 = Inr js' \<and> j = joint"
    by (cases "bindChildren fuel' json l jointsMap cs p1 rootNode js1") simp_all
  with Suc ni np bj cs show ?thesis by blast
qed

lemma bind_keeps_indices:
  "(bindNodeToJoint fuel json l jointsMap nodeName parentIndex rootNode js = Inr (joint, js') \<longrightarrow>
      map j_index js' = map j_index js)"
  "(bindChildren fuel json l jointsMap cs parentIndex rootNode js = Inr js' \<longrightarrow>
      map j_index js' = map j_index js)"
proof (induction fuel arbitrary: nodeName parentIndex js joint js' cs)
  case 0
  {
    case 1
    show ?case by simp
  next
    case 2
    show ?case
    proof (induction cs arbitrary: js)
      case Nil
      then show ?case by simp
    next
      case (Cons c cs)
      then show ?case by simp
    qed
  }
next
  case (Suc fuel)
  {
    case 1
    show ?case
    proof
      assume run: "bindNodeToJoint (Suc fuel) json l jointsMap nodeName parentIndex rootNode js
                     = Inr (joint, js')"
      from bind_returns [OF run] obtain nodeInfo cs' js1 p1 where
        bj: "bind_joint l jointsMap nodeName nodeInfo parentIndex rootNode js = (joint, js1, p1)"
        and ch: "bindChildren fuel json l jointsMap cs' p1 rootNode js1 = Inr js'"
        by auto
      from Suc.IH(2) ch have "map j_index js' = map j_index js1" by blast
      with bind_joint_indices [OF bj] show "map j_index js' = map j_index js" by simp
    qed
  next
    case 2
    show ?case
    proof (induction cs arbitrary: js)
      case Nil
      then show ?case by simp
    next
      case (Cons c cs)
      show ?case
      proof
        assume run: "bindChildren (Suc fuel) json l jointsMap (c # cs) parentIndex rootNode js = Inr js'"
        then obtain j js1 where
          1: "bindNodeToJoint (Suc fuel) json l jointsMap c parentIndex rootNode js = Inr (j, js1)"
          and 2: "bindChildren (Suc fuel) json l jointsMap cs parentIndex rootNode js1 = Inr js'"
          by (auto split: sum.splits)
        from bind_returns [OF 1] obtain nodeInfo cs' js0 p1 where
          bj: "bind_joint l jointsMap c nodeInfo parentIndex rootNode js = (j, js0, p1)"
          and ch: "bindChildren fuel json l jointsMap cs' p1 rootNode js0 = Inr js1"
          by auto
        from Suc.IH(2) ch have "map j_index js1 = map j_index js0" by blast
        with bind_joint_indices [OF bj] have "map j_index js1 = map j_index js" by simp
        with Cons.IH [of js1] 2 show "map j_index js' = map j_index js" by simp
      qed
    qed
  }
qed

lemma bind_returns_joint:
  "bindNodeToJoint fuel json l jointsMap nodeName parentIndex rootNode js = Inr (joint, js') \<Longrightarrow>
   joint \<noteq> None"
proof -
  assume "bindNodeToJoint fuel json l jointsMap nodeName parentIndex rootNode js = Inr (joint, js')"
  from bind_returns [OF this] obtain nodeInfo js1 p1 where
    "bind_joint l jointsMap nodeName nodeInfo parentIndex rootNode js = (joint, js1, p1)"
    by auto
  from bind_joint_indices [OF this] show ?thesis by simp
qed



lemma bind_roots_props:
  "bind_roots fuel json l jointsMap rootIds sk = Inr sk' \<Longrightarrow>
   (\<exists>rs. s_roots sk' = s_roots sk @ rs \<and> length rs = length rootIds) \<and>
   map j_index (s_joints sk') = map j_index (s_joints sk)"
proof (induction rootIds arbitrary: sk)
  case Nil
  then show ?case by simp
next
  case (Cons rootId rest)
  from Cons.prems obtain rootJoint js where
    b: "bindNodeToJoint fuel json l jointsMap rootId (Some (- 1)) (node_at l rootId) (s_joints sk)
          = Inr (rootJoint, js)"
    by (auto split: sum.splits)
  from bind_returns_joint [OF b] obtain j where j: "rootJoint = Some j" by auto
  from Cons.prems b j
  have r: "bind_roots fuel json l jointsMap rest (sk\<lparr>s_joints := js, s_roots := s_roots sk @ [j]\<rparr>)
             = Inr sk'"
    by simp
  from Cons.IH [OF r] obtain rs where
    rs: "s_roots sk' = (s_roots sk @ [j]) @ rs" "length rs = length rest"
    and ix: "map j_index (s_joints sk') = map j_index js"
    by auto
  from rs have "s_roots sk' = s_roots sk @ (j # rs) \<and> length (j # rs) = length (rootId # rest)"
    by simp
  with ix bind_keeps_indices(1) [of fuel json l jointsMap rootId "Some (- 1)"
                        "node_at l rootId" "s_joints sk" rootJoint js] b
  show ?case by metis
qed


lemma enableSkinningForMesh_skeletons:
  "enableSkinningForMesh self mesh n ixs l = Inr l' \<Longrightarrow> lib_skeletons l' = lib_skeletons l"
  by (auto simp: enableSkinningForMesh_def modify_def split: option.splits if_splits found.splits)

lemma enableSkinningForMeshes_skeletons:
  "enableSkinningForMeshes self cs n ixs l = Inr l' \<Longrightarrow> lib_skeletons l' = lib_skeletons l"
proof (induction cs arbitrary: l)
  case Nil
  then show ?case by simp
next
  case (Cons c cs)
  from Cons.prems obtain l1 where 1: "enableSkinningForMesh self c n ixs l = Inr l1"
    and 2: "enableSkinningForMeshes self cs n ixs l1 = Inr l'"
    by (auto split: sum.splits)
  from Cons.IH [OF 2] enableSkinningForMesh_skeletons [OF 1] show ?case by simp
qed

lemma enable_skinning_skeletons:
  "enable_skinning self node n ixs l = Inr l' \<Longrightarrow> lib_skeletons l' = lib_skeletons l"
  by (auto simp: enable_skinning_def split: option.splits if_splits found.splits
      dest: enableSkinningForMesh_skeletons enableSkinningForMeshes_skeletons)

lemma bind_skin_indices:
  assumes "bind_skin fuel self json n l = Inr l'"
  shows "skeleton_indices l' = skeleton_indices l"
proof -
  obtain name nodeInfo where n: "n = (name, nodeInfo)" by (cases n)
  show ?thesis
  proof (cases "ni_instanceSkin nodeInfo")
    case None
    with assms n show ?thesis by (simp add: bind_skin_def)
  next
    case (Some isk)
    with assms n obtain sk where sk: "lib_skeletons l (prop_key (skin isk)) = Some sk"
      by (cases "lib_skeletons l (prop_key (skin isk))") (simp_all add: bind_skin_def)
    from assms n Some sk obtain l1 where
      en: "enable_skinning self (node_at l name) (prop_key (skin isk))
             (map j_index (s_joints sk)) l = Inr l1"
      by (cases "enable_skinning self (node_at l name) (prop_key (skin isk))
             (map j_index (s_joints sk)) l") (simp_all add: bind_skin_def)
    from assms n Some sk en obtain rootNodes where rn: "skeletons isk = Some rootNodes"
      by (cases "skeletons isk") (simp_all add: bind_skin_def)
    from assms n Some sk en rn obtain sk' where
      br: "bind_roots fuel json l1 (jointsMap_of (s_joints sk) 0 Map.empty) rootNodes sk = Inr sk'"
      and l': "l' = l1\<lparr>lib_skeletons := (lib_skeletons l1)(prop_key (skin isk) \<mapsto> sk')\<rparr>"
      by (cases "bind_roots fuel json l1 (jointsMap_of (s_joints sk) 0 Map.empty) rootNodes sk")
         (simp_all add: bind_skin_def)
    from bind_roots_props [OF br]
    have "map j_index (s_joints sk') = map j_index (s_joints sk)" by simp
    with sk enable_skinning_skeletons [OF en] show ?thesis
      by (auto simp: skeleton_indices_def l')
  qed
qed

lemma bind_skins_indices:
  "bind_skins fuel self json ns l = Inr l' \<Longrightarrow> skeleton_indices l' = skeleton_indices l"
proof (induction ns arbitrary: l)
  case Nil
  then show ?case by simp
next
  case (Cons n ns)
  from Cons.prems obtain l1 where 1: "bind_skin fuel self json n l = Inr l1"
    and 2: "bind_skins fuel self json ns l1 = Inr l'"
    by (auto split: sum.splits)
  from Cons.IH [OF 2] bind_skin_indices [OF 1] show ?case by simp
qed

lemma create_skeletons_step:
  assumes "create_skeletons json ((name, skinInfo) # rest) (h, l) = Inr (h', l')"
  shows "\<exists>h1 sk. create_skeletons json rest (h1, l\<lparr>lib_skeletons := (lib_skeletons l)(name \<mapsto> sk)\<rparr>)
                   = Inr (h', l') \<and>
                 s_joints sk = create_joints (sk_joints skinInfo) []"
proof -
  let ?sk = "\<lparr>s_name = name, s_joints = create_joints (sk_joints skinInfo) [], s_roots = [],
              s_invBindPoseMatricesArray = None, s_skinMatricesArray = None\<rparr>"
  show ?thesis
  proof (cases "inverseBindMatrices skinInfo")
    case None
    with assms have "create_skeletons json rest
                       (h, l\<lparr>lib_skeletons := (lib_skeletons l)(name \<mapsto> ?sk)\<rparr>) = Inr (h', l') \<and>
                     s_joints ?sk = create_joints (sk_joints skinInfo) []"
      by (simp add: Let_def)
    then show ?thesis by blast
  next
    case (Some IBMInfo)
    with assms obtain array skinMatrices where
      ib: "inverseBind json l IBMInfo = Inr (array, skinMatrices)"
      by (cases "inverseBind json l IBMInfo") (auto simp: Let_def)
    let ?sk' = "?sk\<lparr>s_invBindPoseMatricesArray := Some array,
                      s_skinMatricesArray := Some skinMatrices\<rparr>"
    from assms Some ib
    have "create_skeletons json rest
            (True, l\<lparr>lib_skeletons := (lib_skeletons l)(name \<mapsto> ?sk')\<rparr>) = Inr (h', l') \<and>
          s_joints ?sk' = create_joints (sk_joints skinInfo) []"
      by (simp add: Let_def)
    then show ?thesis by blast
  qed
qed

lemma create_skeletons_other:
  "create_skeletons json sks (h, l) = Inr (h', l') \<Longrightarrow> name \<notin> fst ` set sks \<Longrightarrow>
   lib_skeletons l' name = lib_skeletons l name"
proof (induction sks arbitrary: h l)
  case Nil
  then show ?case by simp
next
  case (Cons a sks)
  obtain n skinInfo where a: "a = (n, skinInfo)" by (cases a)
  from create_skeletons_step [OF Cons.prems(1) [unfolded a]] obtain h1 sk where
    r: "create_skeletons json sks (h1, l\<lparr>lib_skeletons := (lib_skeletons l)(n \<mapsto> sk)\<rparr>) = Inr (h', l')"
    by blast
  from Cons.IH [OF r] Cons.prems(2) a show ?case by auto
qed

lemma create_skeletons_lookup:
  "create_skeletons json sks (h, l) = Inr (h', l') \<Longrightarrow> distinct (map fst sks) \<Longrightarrow>
   (name, skinInfo) \<in> set sks \<Longrightarrow>
   skeleton_indices l' name = Some (map (\<lambda>k. Some (int k)) [0 ..< length (sk_joints skinInfo)])"
proof (induction sks arbitrary: h l)
  case Nil
  then show ?case by simp
next
  case (Cons a sks)
  obtain n si where a: "a = (n, si)" by (cases a)
  from create_skeletons_step [OF Cons.prems(1) [unfolded a]] obtain h1 sk where
    r: "create_skeletons json sks (h1, l\<lparr>lib_skeletons := (lib_skeletons l)(n \<mapsto> sk)\<rparr>) = Inr (h', l')"
    and sk: "s_joints sk = create_joints (sk_joints si) []"
    by blast
  show ?case
  proof (cases "(name, skinInfo) \<in> set sks")
    case True
    with Cons.IH [OF r] Cons.prems(2) show ?thesis by simp
  next
    case False
    with Cons.prems(3) a have eq: "name = n" "skinInfo = si" by auto
    from Cons.prems(2) a have "n \<notin> fst ` set sks" by simp
    from create_skeletons_other [OF r this] sk eq show ?thesis
      by (simp add: skeleton_indices_def create_joints_indices)
  qed
qed

text \<open>
  Claim C1. When \<open>_parseSkins\<close> completes, the skeleton stored for a skin descriptor of
  the document has as many joints as the descriptor's \<open>joints\<close> array has entries, and
  the joint at every position \<open>i\<close> of the list has index \<open>i\<close>: the binding walk assigns
  to \<open>node\<close>, \<open>parentIndex\<close> and \<open>rootNode\<close> of the joints only.
\<close>

theorem joints_indexed_by_position:
  assumes "parseSkins fuel self json l = Inr l'"
      and "distinct (map fst (skins json))"
      and "(name, skinInfo) \<in> set (skins json)"
  shows "\<exists>sk. lib_skeletons l' name = Some sk \<and>
           length (s_joints sk) = length (sk_joints skinInfo) \<and>
           (\<forall>i < length (s_joints sk). j_index (s_joints sk ! i) = Some (int i))"
proof -
  from assms(1) obtain h1 l1 where c: "create_skeletons json (skins json) (False, l) = Inr (h1, l1)"
    and b: "bind_skins fuel self json (nodes json) l1 = Inr l'"
    by (auto simp: parseSkins_def split: sum.splits)
  from create_skeletons_lookup [OF c assms(2,3)] bind_skins_indices [OF b]
  have "skeleton_indices l' name =
          Some (map (\<lambda>k. Some (int k)) [0 ..< length (sk_joints skinInfo)])"
    by simp
  then obtain sk where sk: "lib_skeletons l' name = Some sk"
    and ix: "map j_index (s_joints sk) = map (\<lambda>k. Some (int k)) [0 ..< length (sk_joints skinInfo)]"
    by (auto simp: skeleton_indices_def)
  from indexed_iff [THEN iffD1, OF ix]
  have "length (s_joints sk) = length (sk_joints skinInfo) \<and>
           (\<forall>i < length (s_joints sk). j_index (s_joints sk ! i) = Some (int i))" .
  with sk show ?thesis by blast
qed

lemmas example_skin_defs = skinned_document_def skinned_lib_def example_document_def
  example_lib_def example_loader_def empty_node_def example_depth_def example_joints_def
  example_skeleton_def new_Joint_def bind_joint_def property_def node_at_def inherited_def
  prototype_members_def

lemma skinned_run:
  "\<exists>l'. parseSkins example_depth example_loader skinned_document skinned_lib = Inr l'"
  by (simp add: parseSkins_def bind_skin_def enable_skinning_def enableSkinningForMesh_def
        modify_def new_entity_def new_Material_def shaderLib_get_def example_skin_defs Let_def)

text \<open>Witness for C1: the skeleton of the example has two joints, with indices 0 and 1.\<close>

theorem joints_indexed_by_position_witness:
  "(case parseSkins example_depth example_loader skinned_document skinned_lib of
      Inl e \<Rightarrow> False
    | Inr l' \<Rightarrow>
        (case lib_skeletons l' ''skin'' of
           None \<Rightarrow> False
         | Some sk \<Rightarrow>
             length (s_joints sk) = 2 \<and> j_index (s_joints sk ! 0) = Some 0 \<and>
             j_index (s_joints sk ! 1) = Some 1))"
proof -
  obtain l' where run: "parseSkins example_depth example_loader skinned_document skinned_lib = Inr l'"
    using skinned_run by blast
  have d: "distinct (map fst (skins skinned_document))"
    and m: "(''skin'', \<lparr>sk_joints = [''hip'', ''knee''], inverseBindMatrices = None\<rparr>)
              \<in> set (skins skinned_document)"
    by (simp_all add: skinned_document_def)
  from joints_indexed_by_position [OF run d m] obtain sk where
    sk: "lib_skeletons l' ''skin'' = Some sk" and len: "length (s_joints sk) = 2"
    and ix: "\<forall>i < length (s_joints sk). j_index (s_joints sk ! i) = Some (int i)"
    by auto
  from ix len have "j_index (s_joints sk ! 0) = Some 0" "j_index (s_joints sk ! 1) = Some 1"
    by auto
  with sk len show ?thesis by (simp add: run)
qed




section \<open>Properties of \<open>_parseAnimations\<close>\<close>












lemmas example_anim_defs = anim_document_def anim_lib_def spin_track_def still_track_def
  echo_track_def shared_anim_document_def ghost_track_def ghost_anim_document_def
  skinned_lib_def skinned_document_def example_lib_def example_document_def
  legacy_type_def new_view_def bufferView_at_def offset_sum_def length_product_def
  node_at_def property_def inherited_def prototype_members_def

lemmas conversion_defs = parseAnimations_def parse_animation_def convert_rotations_def
  convert_sample_def view_set_def setAxisAngle_def Let_def anim_cell_def upt_rec

text \<open>
  Claim C4 fails on the code. The tracks \<open>spin\<close> and \<open>echo\<close> of \<open>shared_anim_document\<close>
  animate two nodes with the same \<open>TIME\<close> and \<open>rotation\<close> accessors: the times are 1 and
  2 seconds, and the first rotation sample is the axis \<open>(0, 0, 1)\<close> with the angle \<open>\<pi>\<close>,
  for which \<open>setAxisAngle\<close> gives the quaternion \<open>(0, 0, 1, 0)\<close>. Line 956 makes new views
  over the same buffer for every track and lines 971-982 convert what is there, so the
  second track converts the converted samples again. With the track \<open>spin\<close> alone the
  times end as 1000 and 2000 and the sample as \<open>(0, 0, 1, 0)\<close>. With both tracks the
  times of both end as 1000000 and 2000000, and the sample as \<open>(0, 0, 0, 1)\<close>, the
  quaternion of no rotation; the clip of \<open>spin\<close> keeps the life 2000 that it read before
  the second conversion. Numbers are reals here: the values are exact, without the
  rounding of 32-bit floats.
\<close>

theorem shared_samples_converted_twice:
  "map (ta_get (lib_buffers anim_lib) (View Float32Array ''anim'' 0 2)) [0, 1] =
     [Some (Fin 1), Some (Fin 2)] \<and>
   map (ta_get (lib_buffers anim_lib) (View Float32Array ''anim'' 8 8)) [0, 1, 2, 3] =
     [Some (Fin 0), Some (Fin 0), Some (Fin 1), Some (Fin pi)] \<and>
   setAxisAngle (Fin 0, Fin 0, Fin 1) (Fin pi) = [Fin 0, Fin 0, Fin 1, Fin 0] \<and>
   (\<exists>l'. parseAnimations anim_document anim_lib = Inr l' \<and>
      map (ta_get (lib_buffers l') (View Float32Array ''anim'' 0 2)) [0, 1] =
        [Some (Fin 1000), Some (Fin 2000)] \<and>
      map (ta_get (lib_buffers l') (View Float32Array ''anim'' 8 8)) [0, 1, 2, 3] =
        [Some (Fin 0), Some (Fin 0), Some (Fin 1), Some (Fin 0)]) \<and>
   (\<exists>l'. parseAnimations shared_anim_document anim_lib = Inr l' \<and>
      map (ta_get (lib_buffers l') (View Float32Array ''anim'' 0 2)) [0, 1] =
        [Some (Fin 1000000), Some (Fin 2000000)] \<and>
      map (ta_get (lib_buffers l') (View Float32Array ''anim'' 8 8)) [0, 1, 2, 3] =
        [Some (Fin 0), Some (Fin 0), Some (Fin 0), Some (Fin 1)] \<and>
      map_option c_time (lib_clips l' ''root'') = Some (Some (View Float32Array ''anim'' 0 2)) \<and>
      map_option c_time (lib_clips l' ''hipnode'') = Some (Some (View Float32Array ''anim'' 0 2)) \<and>
      map_option c_life (lib_clips l' ''root'') = Some (Some (Fin 2000)) \<and>
      map_option c_life (lib_clips l' ''hipnode'') = Some (Some (Fin 2000000)))"
  by (simp add: example_anim_defs conversion_defs)








end
